theory Spec2Isabelle
  imports
    Complex_Main
    "HOL-Library.Product_Lexorder"
    "HOL-Library.List_Lexorder"
    "HOL-Library.Char_ord"
    "HOL-Library.Monad_Syntax"
begin

section \<open>Values\<close>

text \<open>
  The backend (\<^verbatim>\<open>backend/src/controllers/bookController.ts\<close>, \<^verbatim>\<open>models/Book.ts\<close>,
  \<^verbatim>\<open>utils/validation.ts\<close>) is modelled sequentially: one request at a time against one
  collection of documents. Strings are byte strings (UTF-8). Numbers of request bodies and
  stored documents are rationals and identifiers are integers: the rounding of IEEE
  doubles and the sign of zero are outside the model. Instants are milliseconds since the
  epoch. The middleware in front of the router (rate
  limiter, metrics, logging) and the failure of the database connection are left out.
\<close>

type_synonym time = int

datatype jsdate = InvalidDate | Date time

text \<open>
  A number of the query string and of the list response: the value of \<^verbatim>\<open>Number(x)\<close> can
  be NaN, infinite or finite. The arithmetic of \<^verbatim>\<open>getBooks\<close> on such numbers follows, exact
  on the finite ones.
\<close>

datatype number = NaN | NegInf | Num rat | PosInf

definition inf_of_sign :: "rat \<Rightarrow> number" where
  "inf_of_sign s = (if s = 0 then NaN else if 0 < s then PosInf else NegInf)"

definition sign_of :: "number \<Rightarrow> rat" where
  "sign_of x = (case x of NaN \<Rightarrow> 0 | NegInf \<Rightarrow> - 1 | Num a \<Rightarrow> sgn a | PosInf \<Rightarrow> 1)"

definition js_minus :: "number \<Rightarrow> number \<Rightarrow> number" where
  "js_minus x y =
     (case (x, y) of
        (NaN, _) \<Rightarrow> NaN
      | (_, NaN) \<Rightarrow> NaN
      | (Num a, Num b) \<Rightarrow> Num (a - b)
      | (PosInf, PosInf) \<Rightarrow> NaN
      | (NegInf, NegInf) \<Rightarrow> NaN
      | (PosInf, _) \<Rightarrow> PosInf
      | (NegInf, _) \<Rightarrow> NegInf
      | (Num a, PosInf) \<Rightarrow> NegInf
      | (Num a, NegInf) \<Rightarrow> PosInf)"

definition js_times :: "number \<Rightarrow> number \<Rightarrow> number" where
  "js_times x y =
     (case (x, y) of
        (NaN, _) \<Rightarrow> NaN
      | (_, NaN) \<Rightarrow> NaN
      | (Num a, Num b) \<Rightarrow> Num (a * b)
      | _ \<Rightarrow> inf_of_sign (sign_of x * sign_of y))"

definition js_divide :: "number \<Rightarrow> number \<Rightarrow> number" where
  "js_divide x y =
     (case (x, y) of
        (NaN, _) \<Rightarrow> NaN
      | (_, NaN) \<Rightarrow> NaN
      | (Num a, Num b) \<Rightarrow> if b = 0 then inf_of_sign (sgn a) else Num (a / b)
      | (Num a, _) \<Rightarrow> Num 0
      | (_, Num b) \<Rightarrow> inf_of_sign (sign_of x * (if b < 0 then - 1 else 1))
      | _ \<Rightarrow> NaN)"

definition Math_ceil :: "number \<Rightarrow> number" where
  "Math_ceil x = (case x of Num a \<Rightarrow> Num (rat_of_int \<lceil>a\<rceil>) | _ \<Rightarrow> x)"

text \<open>A request body, as \<^verbatim>\<open>express.json()\<close> hands it to a controller.\<close>

datatype json =
    JNull
  | JBool bool
  | JNum rat
  | JStr string
  | JArr "json list"
  | JObj "(string \<times> json) list"

text \<open>
  Two functions of the JavaScript platform are taken as parameters, since what they compute
  is defined outside this repository: \<^verbatim>\<open>new Date(s)\<close> on a string, and
  \<^verbatim>\<open>new RegExp(s, 'i')\<close>, which either throws a SyntaxError (\<open>None\<close>) or yields a pattern,
  given here by the set of strings in which the pattern matches somewhere.
\<close>

record platform =
  new_Date :: "string \<Rightarrow> jsdate"
  RegExp_i :: "string \<Rightarrow> (string \<Rightarrow> bool) option"

section \<open>parseInt\<close>

text \<open>
  \<^verbatim>\<open>parseInt(s)\<close> without a radix: leading white space is skipped, then an optional sign,
  then an optional \<^verbatim>\<open>0x\<close>/\<^verbatim>\<open>0X\<close> prefix (radix 16, otherwise 10), then the longest run of
  digits of that radix. No digit gives NaN, here \<open>None\<close>.
\<close>

definition ws_len :: "string \<Rightarrow> nat" where
  \<comment> \<open>byte length of the white-space code point that starts the string, 0 if there is none\<close>
  "ws_len s =
     (case s of
        [] \<Rightarrow> 0
      | c1 # r1 \<Rightarrow>
          if c1 \<in> set [CHR 0x09, CHR 0x0A, CHR 0x0B, CHR 0x0C, CHR 0x0D, CHR 0x20] then 1
          else (case r1 of
             [] \<Rightarrow> 0
           | c2 # r2 \<Rightarrow>
               if c1 = CHR 0xC2 \<and> c2 = CHR 0xA0 then 2
               else (case r2 of
                  [] \<Rightarrow> 0
                | c3 # _ \<Rightarrow>
                    if (c1 = CHR 0xE1 \<and> c2 = CHR 0x9A \<and> c3 = CHR 0x80)
                     \<or> (c1 = CHR 0xE2 \<and> c2 = CHR 0x80
                          \<and> ((0x80::nat) \<le> of_char c3 \<and> of_char c3 \<le> (0x8A::nat)
                               \<or> c3 \<in> set [CHR 0xA8, CHR 0xA9, CHR 0xAF]))
                     \<or> (c1 = CHR 0xE2 \<and> c2 = CHR 0x81 \<and> c3 = CHR 0x9F)
                     \<or> (c1 = CHR 0xE3 \<and> c2 = CHR 0x80 \<and> c3 = CHR 0x80)
                     \<or> (c1 = CHR 0xEF \<and> c2 = CHR 0xBB \<and> c3 = CHR 0xBF)
                    then 3 else 0)))"

function strip_ws :: "string \<Rightarrow> string" where
  "strip_ws s = (if ws_len s = 0 then s else strip_ws (drop (ws_len s) s))"
  by pat_completeness auto
termination
proof (relation "measure length")
  show "wf (measure length)" by simp
next
  fix s :: string
  assume "ws_len s \<noteq> 0"
  moreover have "ws_len s \<le> length s"
    by (auto simp: ws_len_def split: list.splits)
  ultimately show "(drop (ws_len s) s, s) \<in> measure length" by simp
qed

declare strip_ws.simps [simp del]

definition digit_val :: "char \<Rightarrow> nat option" where
  "digit_val c =
     (let n = (of_char c :: nat) in
      if 48 \<le> n \<and> n \<le> 57 then Some (n - 48)
      else if 97 \<le> n \<and> n \<le> 122 then Some (n - 87)
      else if 65 \<le> n \<and> n \<le> 90 then Some (n - 55)
      else None)"

definition is_digit :: "nat \<Rightarrow> char \<Rightarrow> bool" where
  "is_digit R c = (case digit_val c of None \<Rightarrow> False | Some d \<Rightarrow> d < R)"

definition digits_value :: "nat \<Rightarrow> string \<Rightarrow> nat" where
  "digits_value R Z = foldl (\<lambda>a c. a * R + (case digit_val c of None \<Rightarrow> 0 | Some d \<Rightarrow> d)) 0 Z"

definition parseInt :: "string \<Rightarrow> int option" where
  "parseInt inputString =
     (let S = strip_ws inputString;
          (sign, S1) = (case S of
                          c # r \<Rightarrow> if c = CHR ''-'' then (- 1, r)
                                   else if c = CHR ''+'' then (1, r) else (1::int, S)
                        | [] \<Rightarrow> (1, S));
          (R, S2) = (case S1 of
                       c # x # r \<Rightarrow> if c = CHR ''0'' \<and> (x = CHR ''x'' \<or> x = CHR ''X'')
                                      then (16, r) else (10::nat, S1)
                     | _ \<Rightarrow> (10, S1));
          Z = takeWhile (is_digit R) S2
      in if Z = [] then None else Some (sign * int (digits_value R Z)))"

text \<open>
  The decimal text of an identifier, as the frontend writes it into the path
  (\<^verbatim>\<open>`/books/${id}`\<close> in \<^verbatim>\<open>services/api.ts\<close>), and the characters \<^verbatim>\<open>0\<close> to \<^verbatim>\<open>9\<close>.
\<close>

function decimal_nat :: "nat \<Rightarrow> string" where
  "decimal_nat n =
     (if n < 10 then [char_of (48 + n)]
      else decimal_nat (n div 10) @ [char_of (48 + n mod 10)])"
  by pat_completeness auto
termination
  by (relation "measure id") auto

declare decimal_nat.simps [simp del]

definition decimal :: "int \<Rightarrow> string" where
  "decimal i = (if i < 0 then CHR ''-'' # decimal_nat (nat (- i)) else decimal_nat (nat i))"

definition dig :: "char \<Rightarrow> bool" where
  "dig c \<longleftrightarrow> 48 \<le> (of_char c :: nat) \<and> (of_char c :: nat) \<le> 57"

section \<open>The record schema\<close>

subsection \<open>Field validators of the validation library\<close>

text \<open>
  A field validator receives the value found under its key, \<open>None\<close> when the key is
  absent, and returns the parsed value, or \<open>None\<close> when it raises an issue. The schemas
  use \<^verbatim>\<open>min\<close> on a string with the bound 1 only, so the unit of the length does not matter.
\<close>

definition z_string :: "json option \<Rightarrow> string option" where
  "z_string x = (case x of Some (JStr s) \<Rightarrow> Some s | _ \<Rightarrow> None)"

definition z_string_min :: "nat \<Rightarrow> json option \<Rightarrow> string option" where
  "z_string_min n x =
     (case x of Some (JStr s) \<Rightarrow> if n \<le> length s then Some s else None | _ \<Rightarrow> None)"

definition z_number :: "json option \<Rightarrow> rat option" where
  "z_number x = (case x of Some (JNum r) \<Rightarrow> Some r | _ \<Rightarrow> None)"

definition z_number_min :: "rat \<Rightarrow> json option \<Rightarrow> rat option" where
  "z_number_min lo x =
     (case x of Some (JNum r) \<Rightarrow> if lo \<le> r then Some r else None | _ \<Rightarrow> None)"

definition z_number_min_max :: "rat \<Rightarrow> rat \<Rightarrow> json option \<Rightarrow> rat option" where
  "z_number_min_max lo hi x =
     (case x of Some (JNum r) \<Rightarrow> if lo \<le> r \<and> r \<le> hi then Some r else None | _ \<Rightarrow> None)"

definition z_array_string :: "json option \<Rightarrow> string list option" where
  "z_array_string x =
     (case x of
        Some (JArr js) \<Rightarrow>
          if list_all (\<lambda>j. case j of JStr _ \<Rightarrow> True | _ \<Rightarrow> False) js
          then Some (map (\<lambda>j. case j of JStr s \<Rightarrow> s | _ \<Rightarrow> []) js) else None
      | _ \<Rightarrow> None)"

definition z_enum :: "string list \<Rightarrow> json option \<Rightarrow> string option" where
  "z_enum vs x = (case x of Some (JStr s) \<Rightarrow> if s \<in> set vs then Some s else None | _ \<Rightarrow> None)"

definition optional :: "('x option \<Rightarrow> 'a option) \<Rightarrow> 'x option \<Rightarrow> 'a option option" where
  "optional p x = (case x of None \<Rightarrow> Some None | Some j \<Rightarrow> map_option Some (p (Some j)))"

definition default :: "'a \<Rightarrow> ('x option \<Rightarrow> 'a option) \<Rightarrow> 'x option \<Rightarrow> 'a option" where
  "default d p x = (case x of None \<Rightarrow> Some d | Some j \<Rightarrow> p (Some j))"

definition date_transform :: "platform \<Rightarrow> string option \<Rightarrow> jsdate option" where
  \<comment> \<open>\<^verbatim>\<open>val => val ? new Date(val) : undefined\<close>\<close>
  "date_transform P val =
     (case val of None \<Rightarrow> None | Some s \<Rightarrow> if s \<noteq> [] then Some (new_Date P s) else None)"

definition shelves :: "string list" where
  "shelves = [''read'', ''currently-reading'', ''to-read'']"

subsection \<open>bookSchema\<close>

text \<open>
  The output of \<^verbatim>\<open>bookSchema.parse\<close>. Keys of the body that the schema does not name
  (\<^verbatim>\<open>bookId\<close> among them) are stripped. A key that is absent from the output and a key
  whose value is \<^verbatim>\<open>undefined\<close> are both \<open>None\<close>: the document constructor and the update
  both ignore such a key.
\<close>

record validated =
  title :: string
  author :: string
  authorByLastName :: "string option"
  additionalAuthors :: "string list option"
  isbn :: "string option"
  isbn13 :: "rat option"
  rating :: rat
  averageRating :: "rat option"
  publisher :: "string option"
  binding :: "string option"
  pages :: rat
  beqValue :: rat
  editionPublished :: "rat option"
  published :: "rat option"
  dateRead :: "jsdate option"
  bookshelves :: "string list"
  bookshelvesWithPositions :: "string list option"
  exclusiveShelf :: string
  review :: "string option"
  spoiler :: "string option"
  privateNotes :: "string option"
  readCount :: rat
  ownedCopies :: rat

definition bookSchema_parse :: "platform \<Rightarrow> json \<Rightarrow> validated option" where
  "bookSchema_parse P body =
     (case body of
        JObj kvs \<Rightarrow>
          (let get = map_of kvs in do {
             v_title \<leftarrow> z_string_min 1 (get ''title'');
             v_author \<leftarrow> z_string_min 1 (get ''author'');
             v_authorByLastName \<leftarrow> optional z_string (get ''authorByLastName'');
             v_additionalAuthors \<leftarrow> optional z_array_string (get ''additionalAuthors'');
             v_isbn \<leftarrow> optional z_string (get ''isbn'');
             v_isbn13 \<leftarrow> optional z_number (get ''isbn13'');
             v_rating \<leftarrow> default 0 (z_number_min_max 0 5) (get ''rating'');
             v_averageRating \<leftarrow> optional z_number (get ''averageRating'');
             v_publisher \<leftarrow> optional z_string (get ''publisher'');
             v_binding \<leftarrow> optional z_string (get ''binding'');
             v_pages \<leftarrow> z_number_min 1 (get ''pages'');
             v_beqValue \<leftarrow> default 0 z_number (get ''beqValue'');
             v_editionPublished \<leftarrow> optional z_number (get ''editionPublished'');
             v_published \<leftarrow> optional z_number (get ''published'');
             v_dateRead \<leftarrow> optional z_string (get ''dateRead'');
             v_bookshelves \<leftarrow> default [] z_array_string (get ''bookshelves'');
             v_bookshelvesWithPositions \<leftarrow> optional z_array_string (get ''bookshelvesWithPositions'');
             v_exclusiveShelf \<leftarrow> default ''to-read'' (z_enum shelves) (get ''exclusiveShelf'');
             v_review \<leftarrow> optional z_string (get ''review'');
             v_spoiler \<leftarrow> optional z_string (get ''spoiler'');
             v_privateNotes \<leftarrow> optional z_string (get ''privateNotes'');
             v_readCount \<leftarrow> default 0 z_number (get ''readCount'');
             v_ownedCopies \<leftarrow> default 0 z_number (get ''ownedCopies'');
             Some \<lparr> title = v_title, author = v_author,
                    authorByLastName = v_authorByLastName,
                    additionalAuthors = v_additionalAuthors,
                    isbn = v_isbn, isbn13 = v_isbn13, rating = v_rating,
                    averageRating = v_averageRating, publisher = v_publisher,
                    binding = v_binding, pages = v_pages, beqValue = v_beqValue,
                    editionPublished = v_editionPublished, published = v_published,
                    dateRead = date_transform P v_dateRead,
                    bookshelves = v_bookshelves,
                    bookshelvesWithPositions = v_bookshelvesWithPositions,
                    exclusiveShelf = v_exclusiveShelf, review = v_review,
                    spoiler = v_spoiler, privateNotes = v_privateNotes,
                    readCount = v_readCount, ownedCopies = v_ownedCopies \<rparr> })
      | _ \<Rightarrow> None)"

section \<open>The collection\<close>

text \<open>
  The response of the statistics endpoint and the stored document of \<^verbatim>\<open>models/Book.ts\<close>.
  The storage engine's own \<^verbatim>\<open>_id\<close> and version key are left out; \<^verbatim>\<open>createdAt\<close> and
  \<^verbatim>\<open>updatedAt\<close> come from the schema option \<^verbatim>\<open>timestamps: true\<close>. The array paths of the
  schema are never absent in a document built by the model class: they start as \<open>[]\<close>.
\<close>

record stats =
  totalBooks :: nat
  readBooks :: nat
  readingBooks :: nat
  toReadBooks :: nat
  totalPagesRead :: rat
  averageRating :: rat
  topAuthors :: "(string \<times> nat) list"

record book =
  bookId :: int
  title :: string
  author :: string
  authorByLastName :: "string option"
  additionalAuthors :: "string list"
  isbn :: "string option"
  isbn13 :: "rat option"
  rating :: rat
  averageRating :: "rat option"
  publisher :: "string option"
  binding :: "string option"
  pages :: rat
  beqValue :: rat
  editionPublished :: "rat option"
  published :: "rat option"
  dateRead :: "time option"
  dateAdded :: time
  bookshelves :: "string list"
  bookshelvesWithPositions :: "string list"
  exclusiveShelf :: string
  review :: "string option"
  spoiler :: "string option"
  privateNotes :: "string option"
  readCount :: rat
  ownedCopies :: rat
  createdAt :: time
  updatedAt :: time

record paginated =
  data :: "book list"
  totalPages :: number
  currentPage :: number
  totalItems :: nat

datatype body =
    BookBody book
  | PageBody paginated
  | StatsBody stats
  | Message string

datatype reply = Reply (status: nat) (body: body)

subsection \<open>Sorting\<close>

text \<open>
  A sort key of the database, in its comparison order: an empty array is below a null or
  missing value, which is below every number, which is below every string, which is below
  every date. An array counts by its least element in an ascending and by its greatest
  element in a descending sort; strings compare byte by byte. Documents with equal keys
  stay in the order of the collection, one of the orders the database may return. The sort
  is fixed here for the top-level paths of the schema only, \<open>sort_path\<close>; \<open>path_of\<close>
  recognises their names.
\<close>

type_synonym skey = "nat \<times> rat \<times> string \<times> int"

definition k_null :: skey where "k_null = (1, 0, [], 0)"
definition k_num :: "rat \<Rightarrow> skey" where "k_num r = (2, r, [], 0)"
definition k_str :: "string \<Rightarrow> skey" where "k_str s = (3, 0, s, 0)"
definition k_date :: "time \<Rightarrow> skey" where "k_date t = (4, 0, [], t)"

definition k_opt :: "('a \<Rightarrow> skey) \<Rightarrow> 'a option \<Rightarrow> skey" where
  "k_opt k x = (case x of None \<Rightarrow> k_null | Some v \<Rightarrow> k v)"

definition k_arr :: "bool \<Rightarrow> string list \<Rightarrow> skey" where
  "k_arr asc xs =
     (case xs of [] \<Rightarrow> (0, 0, [], 0) | x # r \<Rightarrow> k_str (fold (if asc then min else max) r x))"

datatype sort_path =
    Path_bookId
  | Path_title
  | Path_author
  | Path_authorByLastName
  | Path_additionalAuthors
  | Path_isbn
  | Path_isbn13
  | Path_rating
  | Path_averageRating
  | Path_publisher
  | Path_binding
  | Path_pages
  | Path_beqValue
  | Path_editionPublished
  | Path_published
  | Path_dateRead
  | Path_dateAdded
  | Path_bookshelves
  | Path_bookshelvesWithPositions
  | Path_exclusiveShelf
  | Path_review
  | Path_spoiler
  | Path_privateNotes
  | Path_readCount
  | Path_ownedCopies
  | Path_createdAt
  | Path_updatedAt

definition path_of :: "string \<Rightarrow> sort_path option" where
  "path_of s =
     (if s = ''bookId'' then Some Path_bookId
      else if s = ''title'' then Some Path_title
      else if s = ''author'' then Some Path_author
      else if s = ''authorByLastName'' then Some Path_authorByLastName
      else if s = ''additionalAuthors'' then Some Path_additionalAuthors
      else if s = ''isbn'' then Some Path_isbn
      else if s = ''isbn13'' then Some Path_isbn13
      else if s = ''rating'' then Some Path_rating
      else if s = ''averageRating'' then Some Path_averageRating
      else if s = ''publisher'' then Some Path_publisher
      else if s = ''binding'' then Some Path_binding
      else if s = ''pages'' then Some Path_pages
      else if s = ''beqValue'' then Some Path_beqValue
      else if s = ''editionPublished'' then Some Path_editionPublished
      else if s = ''published'' then Some Path_published
      else if s = ''dateRead'' then Some Path_dateRead
      else if s = ''dateAdded'' then Some Path_dateAdded
      else if s = ''bookshelves'' then Some Path_bookshelves
      else if s = ''bookshelvesWithPositions'' then Some Path_bookshelvesWithPositions
      else if s = ''exclusiveShelf'' then Some Path_exclusiveShelf
      else if s = ''review'' then Some Path_review
      else if s = ''spoiler'' then Some Path_spoiler
      else if s = ''privateNotes'' then Some Path_privateNotes
      else if s = ''readCount'' then Some Path_readCount
      else if s = ''ownedCopies'' then Some Path_ownedCopies
      else if s = ''createdAt'' then Some Path_createdAt
      else if s = ''updatedAt'' then Some Path_updatedAt
      else None)"

fun sort_value :: "sort_path \<Rightarrow> bool \<Rightarrow> book \<Rightarrow> skey" where
  "sort_value Path_bookId asc b = k_num (of_int (bookId b))"
| "sort_value Path_title asc b = k_str (title b)"
| "sort_value Path_author asc b = k_str (author b)"
| "sort_value Path_authorByLastName asc b = k_opt k_str (authorByLastName b)"
| "sort_value Path_additionalAuthors asc b = k_arr asc (additionalAuthors b)"
| "sort_value Path_isbn asc b = k_opt k_str (isbn b)"
| "sort_value Path_isbn13 asc b = k_opt k_num (isbn13 b)"
| "sort_value Path_rating asc b = k_num (rating b)"
| "sort_value Path_averageRating asc b = k_opt k_num (averageRating b)"
| "sort_value Path_publisher asc b = k_opt k_str (publisher b)"
| "sort_value Path_binding asc b = k_opt k_str (binding b)"
| "sort_value Path_pages asc b = k_num (pages b)"
| "sort_value Path_beqValue asc b = k_num (beqValue b)"
| "sort_value Path_editionPublished asc b = k_opt k_num (editionPublished b)"
| "sort_value Path_published asc b = k_opt k_num (published b)"
| "sort_value Path_dateRead asc b = k_opt k_date (dateRead b)"
| "sort_value Path_dateAdded asc b = k_date (dateAdded b)"
| "sort_value Path_bookshelves asc b = k_arr asc (bookshelves b)"
| "sort_value Path_bookshelvesWithPositions asc b = k_arr asc (bookshelvesWithPositions b)"
| "sort_value Path_exclusiveShelf asc b = k_str (exclusiveShelf b)"
| "sort_value Path_review asc b = k_opt k_str (review b)"
| "sort_value Path_spoiler asc b = k_opt k_str (spoiler b)"
| "sort_value Path_privateNotes asc b = k_opt k_str (privateNotes b)"
| "sort_value Path_readCount asc b = k_num (readCount b)"
| "sort_value Path_ownedCopies asc b = k_num (ownedCopies b)"
| "sort_value Path_createdAt asc b = k_date (createdAt b)"
| "sort_value Path_updatedAt asc b = k_date (updatedAt b)"

definition sort_docs :: "sort_path \<Rightarrow> bool \<Rightarrow> book list \<Rightarrow> book list" where
  \<comment> \<open>\<^verbatim>\<open>.sort({ [path]: asc ? 1 : -1 })\<close>, for a top-level path of the schema\<close>
  "sort_docs path asc xs =
     (if asc then sort_key (sort_value path True) xs
      else rev (sort_key (sort_value path False) (rev xs)))"

subsection \<open>Operations of the model class\<close>

definition cast_date :: "jsdate option \<Rightarrow> time option option" where
  \<comment> \<open>casting to the schema type Date: an invalid date is a cast error, \<open>None\<close>\<close>
  "cast_date d =
     (case d of None \<Rightarrow> Some None | Some InvalidDate \<Rightarrow> None | Some (Date t) \<Rightarrow> Some (Some t))"

definition schema_validators :: "string \<Rightarrow> string \<Rightarrow> rat \<Rightarrow> rat \<Rightarrow> string \<Rightarrow> bool" where
  \<comment> \<open>\<^verbatim>\<open>required\<close>, \<^verbatim>\<open>min\<close>, \<^verbatim>\<open>max\<close> and \<^verbatim>\<open>enum\<close> of \<^verbatim>\<open>BookSchema\<close>\<close>
  "schema_validators t a r p sh =
     (t \<noteq> [] \<and> a \<noteq> [] \<and> 0 \<le> r \<and> r \<le> 5 \<and> 0 \<le> p \<and> sh \<in> set shelves)"

definition findOne :: "int \<Rightarrow> book list \<Rightarrow> book option" where
  \<comment> \<open>\<^verbatim>\<open>Book.findOne({ bookId })\<close>\<close>
  "findOne n db = find (\<lambda>b. bookId b = n) db"

definition maxIdBook :: "book list \<Rightarrow> book option" where
  \<comment> \<open>\<^verbatim>\<open>Book.findOne().sort({ bookId: -1 })\<close>\<close>
  "maxIdBook db = (case sort_docs Path_bookId False db of [] \<Rightarrow> None | b # _ \<Rightarrow> Some b)"

definition new_Book_save :: "book list \<Rightarrow> validated \<Rightarrow> int \<Rightarrow> time \<Rightarrow> time \<Rightarrow> book option" where
  \<comment> \<open>\<^verbatim>\<open>new Book({ ...validatedData, bookId, dateAdded }).save()\<close> at instant \<open>ts\<close>;
      \<open>None\<close> when the save is rejected (validation or cast error, duplicate \<^verbatim>\<open>bookId\<close>)\<close>
  "new_Book_save db v newBookId now ts =
     (case cast_date (validated.dateRead v) of
        None \<Rightarrow> None
      | Some d \<Rightarrow>
          if \<not> schema_validators (validated.title v) (validated.author v) (validated.rating v)
                 (validated.pages v) (validated.exclusiveShelf v) then None
          else if newBookId \<in> bookId ` set db then None
          else Some \<lparr> bookId = newBookId,
                 title = validated.title v,
                 author = validated.author v,
                 authorByLastName = validated.authorByLastName v,
                 additionalAuthors =
                   (case validated.additionalAuthors v of None \<Rightarrow> [] | Some xs \<Rightarrow> xs),
                 isbn = validated.isbn v,
                 isbn13 = validated.isbn13 v,
                 rating = validated.rating v,
                 averageRating = validated.averageRating v,
                 publisher = validated.publisher v,
                 binding = validated.binding v,
                 pages = validated.pages v,
                 beqValue = validated.beqValue v,
                 editionPublished = validated.editionPublished v,
                 published = validated.published v,
                 dateRead = d,
                 dateAdded = now,
                 bookshelves = validated.bookshelves v,
                 bookshelvesWithPositions =
                   (case validated.bookshelvesWithPositions v of None \<Rightarrow> [] | Some xs \<Rightarrow> xs),
                 exclusiveShelf = validated.exclusiveShelf v,
                 review = validated.review v,
                 spoiler = validated.spoiler v,
                 privateNotes = validated.privateNotes v,
                 readCount = validated.readCount v,
                 ownedCopies = validated.ownedCopies v,
                 createdAt = ts,
                 updatedAt = ts \<rparr>)"

definition keep :: "'a option \<Rightarrow> 'a option \<Rightarrow> 'a option" where
  \<comment> \<open>a path the update does not name keeps its stored value\<close>
  "keep new old = (case new of None \<Rightarrow> old | Some x \<Rightarrow> Some x)"

definition set_fields :: "validated \<Rightarrow> time option \<Rightarrow> time \<Rightarrow> book \<Rightarrow> book" where
  \<comment> \<open>the update document, applied as a \<^verbatim>\<open>$set\<close> of its keys, and \<^verbatim>\<open>updatedAt\<close>\<close>
  "set_fields v d ts b =
     \<lparr> bookId = bookId b,
       title = validated.title v,
       author = validated.author v,
       authorByLastName = keep (validated.authorByLastName v) (authorByLastName b),
       additionalAuthors =
         (case validated.additionalAuthors v of None \<Rightarrow> additionalAuthors b | Some xs \<Rightarrow> xs),
       isbn = keep (validated.isbn v) (isbn b),
       isbn13 = keep (validated.isbn13 v) (isbn13 b),
       rating = validated.rating v,
       averageRating = keep (validated.averageRating v) (averageRating b),
       publisher = keep (validated.publisher v) (publisher b),
       binding = keep (validated.binding v) (binding b),
       pages = validated.pages v,
       beqValue = validated.beqValue v,
       editionPublished = keep (validated.editionPublished v) (editionPublished b),
       published = keep (validated.published v) (published b),
       dateRead = keep d (dateRead b),
       dateAdded = dateAdded b,
       bookshelves = validated.bookshelves v,
       bookshelvesWithPositions =
         (case validated.bookshelvesWithPositions v of
            None \<Rightarrow> bookshelvesWithPositions b | Some xs \<Rightarrow> xs),
       exclusiveShelf = validated.exclusiveShelf v,
       review = keep (validated.review v) (review b),
       spoiler = keep (validated.spoiler v) (spoiler b),
       privateNotes = keep (validated.privateNotes v) (privateNotes b),
       readCount = validated.readCount v,
       ownedCopies = validated.ownedCopies v,
       createdAt = createdAt b,
       updatedAt = ts \<rparr>"

fun replace_first :: "int \<Rightarrow> (book \<Rightarrow> book) \<Rightarrow> book list \<Rightarrow> book list" where
  "replace_first n f [] = []"
| "replace_first n f (b # bs) = (if bookId b = n then f b # bs else b # replace_first n f bs)"

fun remove_first :: "int \<Rightarrow> book list \<Rightarrow> book list" where
  "remove_first n [] = []"
| "remove_first n (b # bs) = (if bookId b = n then bs else b # remove_first n bs)"

datatype 'a outcome = Rejected | Found 'a | Missing

definition findOneAndUpdate ::
    "int \<Rightarrow> validated \<Rightarrow> time \<Rightarrow> book list \<Rightarrow> (book list \<times> book) outcome" where
  \<comment> \<open>\<^verbatim>\<open>Book.findOneAndUpdate({ bookId }, validatedData, { new: true, runValidators: true })\<close>:
      the update is cast and validated before the collection is touched\<close>
  "findOneAndUpdate n v ts db =
     (case cast_date (validated.dateRead v) of
        None \<Rightarrow> Rejected
      | Some d \<Rightarrow>
          if \<not> schema_validators (validated.title v) (validated.author v) (validated.rating v)
                 (validated.pages v) (validated.exclusiveShelf v) then Rejected
          else (case findOne n db of
                  None \<Rightarrow> Missing
                | Some b \<Rightarrow> Found (replace_first n (set_fields v d ts) db, set_fields v d ts b)))"

definition findOneAndDelete :: "int \<Rightarrow> book list \<Rightarrow> (book list \<times> book) option" where
  "findOneAndDelete n db =
     (case findOne n db of None \<Rightarrow> None | Some b \<Rightarrow> Some (remove_first n db, b))"

section \<open>Single-record controllers\<close>

text \<open>
  A controller takes the collection and the request and returns the reply, together with
  the collection after the request when it can change it. \<open>idParam\<close> is \<^verbatim>\<open>req.params.id\<close>,
  \<open>bid\<close> the controller's \<^verbatim>\<open>bookId\<close>.
\<close>

definition getBookById :: "book list \<Rightarrow> string \<Rightarrow> reply" where
  "getBookById db idParam =
     (case parseInt idParam of
        None \<Rightarrow> Reply 400 (Message ''Invalid book ID'')
      | Some bid \<Rightarrow>
          (case findOne bid db of
             None \<Rightarrow> Reply 404 (Message ''Book not found'')
           | Some book \<Rightarrow> Reply 200 (BookBody book)))"

definition createBook :: "platform \<Rightarrow> book list \<Rightarrow> time \<Rightarrow> time \<Rightarrow> json \<Rightarrow> book list \<times> reply" where
  \<comment> \<open>\<open>now\<close> is the controller's \<^verbatim>\<open>new Date()\<close>, \<open>ts\<close> the instant of the save\<close>
  "createBook P db now ts reqBody =
     (case bookSchema_parse P reqBody of
        None \<Rightarrow> (db, Reply 400 (Message ''Invalid book data''))
      | Some validatedData \<Rightarrow>
          (let newBookId = (case maxIdBook db of Some m \<Rightarrow> bookId m + 1 | None \<Rightarrow> 1) in
           case new_Book_save db validatedData newBookId now ts of
             None \<Rightarrow> (db, Reply 500 (Message ''Server error''))
           | Some savedBook \<Rightarrow> (db @ [savedBook], Reply 201 (BookBody savedBook))))"

definition updateBook :: "platform \<Rightarrow> book list \<Rightarrow> time \<Rightarrow> string \<Rightarrow> json \<Rightarrow> book list \<times> reply" where
  "updateBook P db ts idParam reqBody =
     (case parseInt idParam of
        None \<Rightarrow> (db, Reply 400 (Message ''Invalid book ID''))
      | Some bid \<Rightarrow>
          (case bookSchema_parse P reqBody of
             None \<Rightarrow> (db, Reply 400 (Message ''Invalid book data''))
           | Some validatedData \<Rightarrow>
               (case findOneAndUpdate bid validatedData ts db of
                  Rejected \<Rightarrow> (db, Reply 500 (Message ''Server error''))
                | Missing \<Rightarrow> (db, Reply 404 (Message ''Book not found''))
                | Found (db', book) \<Rightarrow> (db', Reply 200 (BookBody book)))))"

definition deleteBook :: "book list \<Rightarrow> string \<Rightarrow> book list \<times> reply" where
  "deleteBook db idParam =
     (case parseInt idParam of
        None \<Rightarrow> (db, Reply 400 (Message ''Invalid book ID''))
      | Some bid \<Rightarrow>
          (case findOneAndDelete bid db of
             None \<Rightarrow> (db, Reply 404 (Message ''Book not found''))
           | Some (db', book) \<Rightarrow> (db', Reply 200 (Message ''Book removed''))))"

section \<open>The list endpoint\<close>

subsection \<open>filterSchema\<close>

text \<open>
  \<^verbatim>\<open>req.query\<close>. A parameter that is absent is \<open>None\<close>. For the four parameters under
  \<^verbatim>\<open>z.coerce.number()\<close> the record holds the number that the coercion \<^verbatim>\<open>Number(x)\<close> makes
  of the supplied text; the other parameters hold the supplied text.
\<close>

record query =
  page :: "number option"
  limit :: "number option"
  sort :: "string option"
  order :: "string option"
  shelf :: "string option"
  search :: "string option"
  minRating :: "number option"
  maxRating :: "number option"
  startDate :: "string option"
  endDate :: "string option"

text \<open>
  The output of \<^verbatim>\<open>filterSchema.parse\<close>. The schema has filled in the defaults of
  \<^verbatim>\<open>page\<close>, \<^verbatim>\<open>limit\<close>, \<^verbatim>\<open>sort\<close> and \<^verbatim>\<open>order\<close>, so the same defaults in the
  destructuring of \<^verbatim>\<open>getBooks\<close> never apply.
\<close>

record BookFilters =
  page :: number
  limit :: number
  sort :: string
  order :: string
  shelf :: "string option"
  search :: "string option"
  minRating :: "rat option"
  maxRating :: "rat option"
  startDate :: "jsdate option"
  endDate :: "jsdate option"

definition z_coerce_number_positive :: "number option \<Rightarrow> number option" where
  \<comment> \<open>NaN is no number for the validator; an infinite value is one\<close>
  "z_coerce_number_positive x =
     (case x of
        Some (Num r) \<Rightarrow> if 0 < r then Some (Num r) else None
      | Some PosInf \<Rightarrow> Some PosInf
      | _ \<Rightarrow> None)"

definition z_coerce_number_min_max :: "rat \<Rightarrow> rat \<Rightarrow> number option \<Rightarrow> rat option" where
  "z_coerce_number_min_max lo hi x =
     (case x of Some (Num r) \<Rightarrow> if lo \<le> r \<and> r \<le> hi then Some r else None | _ \<Rightarrow> None)"

definition zq_string :: "string option \<Rightarrow> string option" where
  "zq_string x = x"

definition zq_enum :: "string list \<Rightarrow> string option \<Rightarrow> string option" where
  "zq_enum vs x = (case x of Some s \<Rightarrow> if s \<in> set vs then Some s else None | None \<Rightarrow> None)"

definition filterSchema_parse :: "platform \<Rightarrow> query \<Rightarrow> BookFilters option" where
  "filterSchema_parse P q = do {
     v_page \<leftarrow> default (Num 1) z_coerce_number_positive (query.page q);
     v_limit \<leftarrow> default (Num 10) z_coerce_number_positive (query.limit q);
     v_sort \<leftarrow> default ''dateAdded'' zq_string (query.sort q);
     v_order \<leftarrow> default ''desc'' (zq_enum [''asc'', ''desc'']) (query.order q);
     v_shelf \<leftarrow> optional zq_string (query.shelf q);
     v_search \<leftarrow> optional zq_string (query.search q);
     v_minRating \<leftarrow> optional (z_coerce_number_min_max 0 5) (query.minRating q);
     v_maxRating \<leftarrow> optional (z_coerce_number_min_max 0 5) (query.maxRating q);
     v_startDate \<leftarrow> optional zq_string (query.startDate q);
     v_endDate \<leftarrow> optional zq_string (query.endDate q);
     Some \<lparr> page = v_page, limit = v_limit, sort = v_sort, order = v_order,
            shelf = v_shelf, search = v_search,
            minRating = v_minRating, maxRating = v_maxRating,
            startDate = date_transform P v_startDate,
            endDate = date_transform P v_endDate \<rparr> }"

subsection \<open>The filter and its evaluation\<close>

text \<open>
  The filter object that \<^verbatim>\<open>getBooks\<close> builds: each component is \<open>None\<close> when the
  controller does not set the key. \<open>or_regex\<close> is the pattern of the \<^verbatim>\<open>$or\<close> over
  \<^verbatim>\<open>title\<close>, \<^verbatim>\<open>author\<close>, \<^verbatim>\<open>publisher\<close> and \<^verbatim>\<open>review\<close>.
\<close>

record book_filter =
  exclusiveShelf_eq :: "string option"
  rating_range :: "(rat option \<times> rat option) option"
  dateRead_range :: "(jsdate option \<times> jsdate option) option"
  or_regex :: "(string \<Rightarrow> bool) option"

definition build_filter :: "platform \<Rightarrow> BookFilters \<Rightarrow> book_filter option" where
  \<comment> \<open>\<open>None\<close> when \<^verbatim>\<open>new RegExp(search, 'i')\<close> throws\<close>
  "build_filter P v =
     (case (case search v of
              None \<Rightarrow> Some None
            | Some s \<Rightarrow> if s \<noteq> [] then map_option Some (RegExp_i P s) else Some None) of
        None \<Rightarrow> None
      | Some searchRegex \<Rightarrow>
          Some \<lparr> exclusiveShelf_eq = (case shelf v of
                                         None \<Rightarrow> None
                                       | Some s \<Rightarrow> if s \<noteq> [] then Some s else None),
                 rating_range = (if minRating v \<noteq> None \<or> maxRating v \<noteq> None
                                 then Some (minRating v, maxRating v) else None),
                 dateRead_range = (if startDate v \<noteq> None \<or> endDate v \<noteq> None
                                   then Some (startDate v, endDate v) else None),
                 or_regex = searchRegex \<rparr>)"

definition filter_castable :: "book_filter \<Rightarrow> bool" where
  \<comment> \<open>the query is cast to the schema before it runs: an invalid date is a cast error\<close>
  "filter_castable f =
     (case dateRead_range f of
        None \<Rightarrow> True
      | Some (lo, hi) \<Rightarrow> cast_date lo \<noteq> None \<and> cast_date hi \<noteq> None)"

definition in_opt :: "('a \<Rightarrow> bool) \<Rightarrow> 'a option \<Rightarrow> bool" where
  \<comment> \<open>a condition on a path holds in no document that lacks the path\<close>
  "in_opt p x = (case x of None \<Rightarrow> False | Some y \<Rightarrow> p y)"

definition matches :: "book_filter \<Rightarrow> book \<Rightarrow> bool" where
  "matches f b =
     ((case exclusiveShelf_eq f of None \<Rightarrow> True | Some s \<Rightarrow> exclusiveShelf b = s)
      \<and> (case rating_range f of
           None \<Rightarrow> True
         | Some (gte, lte) \<Rightarrow>
             (case gte of None \<Rightarrow> True | Some lo \<Rightarrow> lo \<le> rating b)
             \<and> (case lte of None \<Rightarrow> True | Some hi \<Rightarrow> rating b \<le> hi))
      \<and> (case dateRead_range f of
           None \<Rightarrow> True
         | Some (gte, lte) \<Rightarrow>
             in_opt (\<lambda>t. (case gte of None \<Rightarrow> True | Some InvalidDate \<Rightarrow> False
                                      | Some (Date lo) \<Rightarrow> lo \<le> t)
                       \<and> (case lte of None \<Rightarrow> True | Some InvalidDate \<Rightarrow> False
                                      | Some (Date hi) \<Rightarrow> t \<le> hi)) (dateRead b))
      \<and> (case or_regex f of
           None \<Rightarrow> True
         | Some rx \<Rightarrow> rx (title b) \<or> rx (author b)
                       \<or> in_opt rx (publisher b) \<or> in_opt rx (review b)))"

subsection \<open>The query for a page\<close>

text \<open>
  \<^verbatim>\<open>Book.find(filter).sort({ [sort]: dir }).skip(skip).limit(limit)\<close>, applied to the documents
  that match the filter. The result is fixed here when the sort path is a top-level path of
  the schema and skip and limit are whole numbers below \<open>2^31\<close>, the limit at least 1: the
  documents are sorted, \<open>skip\<close> of them are dropped and at most \<open>limit\<close> are taken. What the
  database does with any other sort path (the empty path, \<^verbatim>\<open>_id\<close>, a nested path), with a
  fraction or with a greater or infinite number is decided outside this repository and is
  a parameter: \<open>run_find\<close> gives the documents returned, or \<open>None\<close> when the call throws.
\<close>

record database =
  run_find :: "string \<Rightarrow> bool \<Rightarrow> number \<Rightarrow> number \<Rightarrow> book list \<Rightarrow> book list option"

definition as_index :: "number \<Rightarrow> nat option" where
  "as_index x =
     (case x of
        Num r \<Rightarrow> if r = rat_of_int \<lfloor>r\<rfloor> \<and> 0 \<le> r \<and> r < 2 ^ 31 then Some (nat \<lfloor>r\<rfloor>) else None
      | _ \<Rightarrow> None)"

definition find_page ::
    "database \<Rightarrow> string \<Rightarrow> bool \<Rightarrow> number \<Rightarrow> number \<Rightarrow> book list \<Rightarrow> book list option" where
  "find_page D path asc skp lmt xs =
     (case (path_of path, as_index skp, as_index lmt) of
        (Some p, Some s, Some l) \<Rightarrow>
          if 0 < l then Some (take l (drop s (sort_docs p asc xs)))
          else run_find D path asc skp lmt xs
      | _ \<Rightarrow> run_find D path asc skp lmt xs)"

subsection \<open>getBooks\<close>

text \<open>
  The numbers of the body are the values that \<^verbatim>\<open>res.json\<close> is given, before an infinite one
  is written as \<^verbatim>\<open>null\<close>.
\<close>

definition getBooks :: "platform \<Rightarrow> database \<Rightarrow> book list \<Rightarrow> query \<Rightarrow> reply" where
  "getBooks P D db reqQuery =
     (case filterSchema_parse P reqQuery of
        None \<Rightarrow> Reply 400 (Message ''Invalid query parameters'')
      | Some v \<Rightarrow>
          (case build_filter P v of
             None \<Rightarrow> Reply 500 (Message ''Server error'')
           | Some f \<Rightarrow>
               if \<not> filter_castable f then Reply 500 (Message ''Server error'')
               else
                 (let skip = js_times (js_minus (page v) (Num 1)) (limit v);
                      total = length (filter (matches f) db)
                  in case find_page D (sort v) (order v = ''asc'') skip (limit v)
                            (filter (matches f) db) of
                       None \<Rightarrow> Reply 500 (Message ''Server error'')
                     | Some books \<Rightarrow>
                         Reply 200 (PageBody
                           \<lparr> data = books,
                             totalPages = Math_ceil (js_divide (Num (rat_of_nat total)) (limit v)),
                             currentPage = page v,
                             totalItems = total \<rparr>))))"

section \<open>The statistics endpoint\<close>

definition countDocuments :: "(book \<Rightarrow> bool) \<Rightarrow> book list \<Rightarrow> nat" where
  "countDocuments p db = length (filter p db)"

definition sum_pages_read :: "book list \<Rightarrow> rat list" where
  \<comment> \<open>the pipeline \<^verbatim>\<open>$match exclusiveShelf = 'read'\<close>, \<^verbatim>\<open>$group $sum pages\<close>: one group, or none\<close>
  "sum_pages_read db =
     (let ms = filter (\<lambda>b. exclusiveShelf b = ''read'') db
      in if ms = [] then [] else [sum_list (map pages ms)])"

definition avg_rating :: "book list \<Rightarrow> rat list" where
  \<comment> \<open>the pipeline \<^verbatim>\<open>$match rating > 0\<close>, \<^verbatim>\<open>$group $avg rating\<close>\<close>
  "avg_rating db =
     (let ms = filter (\<lambda>b. 0 < rating b) db
      in if ms = [] then [] else [sum_list (map rating ms) / rat_of_nat (length ms)])"

definition top_authors :: "book list \<Rightarrow> (string \<times> nat) list" where
  \<comment> \<open>\<^verbatim>\<open>$group\<close> by author with a count, \<^verbatim>\<open>$sort\<close> by count descending, \<^verbatim>\<open>$limit 5\<close>;
      authors with equal counts in the order of their first document\<close>
  "top_authors db =
     take 5 (rev (sort_key snd (rev
       (map (\<lambda>a. (a, length (filter (\<lambda>b. author b = a) db))) (remdups (map author db))))))"

definition getBookStats :: "book list \<Rightarrow> reply" where
  "getBookStats db =
     (let totalBooks = countDocuments (\<lambda>b. True) db;
          readBooks = countDocuments (\<lambda>b. exclusiveShelf b = ''read'') db;
          readingBooks = countDocuments (\<lambda>b. exclusiveShelf b = ''currently-reading'') db;
          toReadBooks = countDocuments (\<lambda>b. exclusiveShelf b = ''to-read'') db;
          totalPages = sum_pages_read db;
          averageRating = avg_rating db;
          topAuthors = top_authors db
      in Reply 200 (StatsBody
           \<lparr> totalBooks = totalBooks, readBooks = readBooks,
             readingBooks = readingBooks, toReadBooks = toReadBooks,
             totalPagesRead = (case totalPages of [] \<Rightarrow> 0 | x # _ \<Rightarrow> x),
             averageRating = (case averageRating of [] \<Rightarrow> 0 | x # _ \<Rightarrow> x),
             topAuthors = topAuthors \<rparr>))"

section \<open>Reachable collections\<close>

text \<open>
  The collections that the three mutating endpoints produce from the empty collection,
  whatever the requests and the instants at which they arrive.
\<close>

inductive reachable :: "platform \<Rightarrow> book list \<Rightarrow> bool" for P :: platform where
  empty: "reachable P []"
| create: "reachable P db \<Longrightarrow> reachable P (fst (createBook P db now ts reqBody))"
| update: "reachable P db \<Longrightarrow> reachable P (fst (updateBook P db ts idParam reqBody))"
| delete: "reachable P db \<Longrightarrow> reachable P (fst (deleteBook db idParam))"

section \<open>A platform for concrete requests\<close>

text \<open>
  Substring search without regard to the case of the letters A to Z.
\<close>

definition lower :: "char \<Rightarrow> char" where
  "lower c = (let n = (of_char c :: nat) in if 65 \<le> n \<and> n \<le> 90 then char_of (n + 32) else c)"

fun starts_with :: "string \<Rightarrow> string \<Rightarrow> bool" where
  "starts_with [] t = True"
| "starts_with (c # s) [] = False"
| "starts_with (c # s) (d # t) = (c = d \<and> starts_with s t)"

fun occurs_in :: "string \<Rightarrow> string \<Rightarrow> bool" where
  "occurs_in s [] = (s = [])"
| "occurs_in s (d # t) = (starts_with s (d # t) \<or> occurs_in s t)"

definition ci_substring :: "string \<Rightarrow> string \<Rightarrow> bool" where
  "ci_substring s t = occurs_in (map lower s) (map lower t)"

definition plain :: "string \<Rightarrow> bool" where
  \<comment> \<open>only letters, digits and spaces: no character with a meaning in a pattern\<close>
  "plain s = list_all (\<lambda>c. c = CHR '' '' \<or> is_digit 36 c) s"

text \<open>
  The instance at which concrete requests are evaluated. It knows two dates and the
  patterns without special characters, where the real functions agree with it; on every
  other text it gives an invalid date and a syntax error, which the real functions need
  not do. The general theorems do not use it.
\<close>

definition sample_platform :: platform where
  "sample_platform =
     \<lparr> new_Date = (\<lambda>s. if s = ''1970-01-01'' then Date 0
                        else if s = ''2024-01-15'' then Date 1705276800000
                        else InvalidDate),
       RegExp_i = (\<lambda>s. if plain s then Some (ci_substring s) else None) \<rparr>"

text \<open>A database that throws on every find that this theory does not fix.\<close>

definition sample_database :: database where
  "sample_database = \<lparr> run_find = (\<lambda>path asc skp lmt xs. None) \<rparr>"

text \<open>A request body that carries an identifier, what validation makes of it, and the
  document that the create endpoint stores for it in the empty collection.\<close>

definition body1 :: json where
  "body1 = JObj [(''bookId'', JNum 42), (''title'', JStr ''Dune''),
                 (''author'', JStr ''Frank Herbert''), (''pages'', JNum 412)]"

definition valid1 :: validated where
  "valid1 = \<lparr> validated.title = ''Dune'', validated.author = ''Frank Herbert'',
     validated.authorByLastName = None, validated.additionalAuthors = None,
     validated.isbn = None, validated.isbn13 = None, validated.rating = 0,
     validated.averageRating = None, validated.publisher = None, validated.binding = None,
     validated.pages = 412, validated.beqValue = 0, validated.editionPublished = None,
     validated.published = None, validated.dateRead = None, validated.bookshelves = [],
     validated.bookshelvesWithPositions = None, validated.exclusiveShelf = ''to-read'',
     validated.review = None, validated.spoiler = None, validated.privateNotes = None,
     validated.readCount = 0, validated.ownedCopies = 0 \<rparr>"

definition book1 :: book where
  "book1 = \<lparr> bookId = 1, title = ''Dune'', author = ''Frank Herbert'',
     authorByLastName = None, additionalAuthors = [], isbn = None, isbn13 = None,
     rating = 0, averageRating = None, publisher = None, binding = None, pages = 412,
     beqValue = 0, editionPublished = None, published = None, dateRead = None,
     dateAdded = 1000, bookshelves = [], bookshelvesWithPositions = [],
     exclusiveShelf = ''to-read'', review = None, spoiler = None, privateNotes = None,
     readCount = 0, ownedCopies = 0, createdAt = 1001, updatedAt = 1001 \<rparr>"

text \<open>The list request without any parameter.\<close>

definition no_params :: query where
  "no_params = \<lparr> query.page = None, query.limit = None, query.sort = None,
     query.order = None, query.shelf = None, query.search = None,
     query.minRating = None, query.maxRating = None,
     query.startDate = None, query.endDate = None \<rparr>"

text \<open>An update payload that names the three required fields only, and what validation
  makes of it.\<close>

definition body2 :: json where
  "body2 = JObj [(''title'', JStr ''Dune Messiah''), (''author'', JStr ''Frank Herbert''),
                 (''pages'', JNum 256)]"

definition valid2 :: validated where
  "valid2 = valid1 \<lparr> validated.title := ''Dune Messiah'', validated.pages := 256 \<rparr>"

text \<open>
  A text is found in a record when it occurs, without regard to case, in the title, the
  author, the publisher or the review. A record with a publisher, and the list request
  whose only parameter is \<^verbatim>\<open>search\<close>.
\<close>

definition text_match :: "string \<Rightarrow> book \<Rightarrow> bool" where
  "text_match s b =
     (ci_substring s (title b) \<or> ci_substring s (author b)
      \<or> in_opt (ci_substring s) (publisher b) \<or> in_opt (ci_substring s) (review b))"

definition book3 :: book where
  "book3 = book1 \<lparr> publisher := Some ''Penguin Books'' \<rparr>"

definition search_only :: "string \<Rightarrow> query" where
  "search_only s = no_params \<lparr> query.search := Some s \<rparr>"

section \<open>Properties\<close>

subsection \<open>Auxiliary facts\<close>

lemma findOne_None_iff: "findOne n db = None \<longleftrightarrow> n \<notin> bookId ` set db"
  by (auto simp: findOne_def find_None_iff)

lemma parseInt_12abc: "parseInt ''12abc'' = Some 12"
  by (simp add: parseInt_def strip_ws.simps ws_len_def is_digit_def digit_val_def
      digits_value_def)

lemma parseInt_12: "parseInt ''12'' = Some 12"
  by (simp add: parseInt_def strip_ws.simps ws_len_def is_digit_def digit_val_def
      digits_value_def)

lemma parse_empty_object: "bookSchema_parse P (JObj []) = None"
  by (simp add: bookSchema_parse_def z_string_min_def)

subsubsection \<open>The greatest identifier\<close>

lemma sort_value_bookId: "sort_value Path_bookId asc b = k_num (of_int (bookId b))"
  by simp

lemma k_num_le: "k_num r \<le> k_num r' \<longleftrightarrow> r \<le> r'"
  by (auto simp: k_num_def)

lemma set_sort_docs: "set (sort_docs path asc xs) = set xs"
  by (simp add: sort_docs_def)

lemma length_sort_docs: "length (sort_docs path asc xs) = length xs"
  by (simp add: sort_docs_def)

lemma hd_sort_docs_desc:
  assumes "sort_docs path False db = m # rest" and "b \<in> set db"
  shows "sort_value path False b \<le> sort_value path False m"
proof -
  let ?k = "sort_value path False"
  let ?s = "sort_key ?k (rev db)"
  have rv: "rev ?s = m # rest" using assms(1) by (simp add: sort_docs_def)
  have "sorted (map ?k ?s)" by (rule sorted_sort_key)
  then have "sorted_wrt (\<lambda>x y. y \<le> x) (rev (map ?k ?s))"
    by (simp add: sorted_wrt_rev)
  then have "sorted_wrt (\<lambda>x y. y \<le> x) (map ?k (m # rest))"
    by (simp only: rev_map rv)
  then have le: "\<forall>y\<in>set rest. ?k y \<le> ?k m" by simp
  have "set (m # rest) = set db"
    using rv by (metis set_rev set_sort)
  then have "b = m \<or> b \<in> set rest" using assms(2) by auto
  then show ?thesis using le by auto
qed

lemma maxIdBook_None: "maxIdBook db = None \<longleftrightarrow> db = []"
proof -
  have "sort_docs Path_bookId False db = [] \<longleftrightarrow> db = []"
    using length_sort_docs [of Path_bookId False db] by (metis length_0_conv)
  then show ?thesis by (auto simp: maxIdBook_def split: list.splits)
qed

lemma maxIdBook_Some:
  assumes "maxIdBook db = Some m"
  shows "m \<in> set db \<and> bookId m = Max (bookId ` set db)"
proof -
  from assms obtain rest where s: "sort_docs Path_bookId False db = m # rest"
    by (auto simp: maxIdBook_def split: list.splits)
  have "m \<in> set (sort_docs Path_bookId False db)" using s by simp
  then have m: "m \<in> set db" by (simp add: set_sort_docs)
  have "\<forall>b\<in>set db. bookId b \<le> bookId m"
  proof
    fix b assume "b \<in> set db"
    from hd_sort_docs_desc [OF s this] show "bookId b \<le> bookId m"
      by (simp add: sort_value_bookId k_num_le)
  qed
  then have "Max (bookId ` set db) = bookId m"
    using m by (intro Max_eqI) auto
  then show ?thesis using m by simp
qed

lemma newBookId_eq:
  "(case maxIdBook db of Some m \<Rightarrow> bookId m + 1 | None \<Rightarrow> 1)
     = (if db = [] then 1 else Max (bookId ` set db) + 1)"
proof (cases "maxIdBook db")
  case None
  then show ?thesis using maxIdBook_None [of db] by simp
next
  case (Some m)
  then have "db \<noteq> []" using maxIdBook_None [of db] by auto
  then show ?thesis using Some maxIdBook_Some [OF Some] by simp
qed

subsubsection \<open>Validation of a body, and creation\<close>

lemma parse_fields:
  assumes "bookSchema_parse P reqBody = Some v"
  shows "\<exists>kvs. reqBody = JObj kvs
    \<and> z_string_min 1 (map_of kvs ''title'') = Some (validated.title v)
    \<and> z_string_min 1 (map_of kvs ''author'') = Some (validated.author v)
    \<and> optional z_string (map_of kvs ''authorByLastName'') = Some (validated.authorByLastName v)
    \<and> optional z_array_string (map_of kvs ''additionalAuthors'') = Some (validated.additionalAuthors v)
    \<and> optional z_string (map_of kvs ''isbn'') = Some (validated.isbn v)
    \<and> optional z_number (map_of kvs ''isbn13'') = Some (validated.isbn13 v)
    \<and> default 0 (z_number_min_max 0 5) (map_of kvs ''rating'') = Some (validated.rating v)
    \<and> optional z_number (map_of kvs ''averageRating'') = Some (validated.averageRating v)
    \<and> optional z_string (map_of kvs ''publisher'') = Some (validated.publisher v)
    \<and> optional z_string (map_of kvs ''binding'') = Some (validated.binding v)
    \<and> z_number_min 1 (map_of kvs ''pages'') = Some (validated.pages v)
    \<and> default 0 z_number (map_of kvs ''beqValue'') = Some (validated.beqValue v)
    \<and> optional z_number (map_of kvs ''editionPublished'') = Some (validated.editionPublished v)
    \<and> optional z_number (map_of kvs ''published'') = Some (validated.published v)
    \<and> map_option (date_transform P) (optional z_string (map_of kvs ''dateRead'')) = Some (validated.dateRead v)
    \<and> default [] z_array_string (map_of kvs ''bookshelves'') = Some (validated.bookshelves v)
    \<and> optional z_array_string (map_of kvs ''bookshelvesWithPositions'') = Some (validated.bookshelvesWithPositions v)
    \<and> default ''to-read'' (z_enum shelves) (map_of kvs ''exclusiveShelf'') = Some (validated.exclusiveShelf v)
    \<and> optional z_string (map_of kvs ''review'') = Some (validated.review v)
    \<and> optional z_string (map_of kvs ''spoiler'') = Some (validated.spoiler v)
    \<and> optional z_string (map_of kvs ''privateNotes'') = Some (validated.privateNotes v)
    \<and> default 0 z_number (map_of kvs ''readCount'') = Some (validated.readCount v)
    \<and> default 0 z_number (map_of kvs ''ownedCopies'') = Some (validated.ownedCopies v)"
  using assms
  by (cases reqBody) (auto simp: bookSchema_parse_def Let_def bind_eq_Some_conv)

lemma parse_valid:
  assumes "bookSchema_parse P reqBody = Some v"
  shows "schema_validators (validated.title v) (validated.author v) (validated.rating v)
           (validated.pages v) (validated.exclusiveShelf v)"
proof -
  from parse_fields [OF assms] obtain kvs where
    t: "z_string_min 1 (map_of kvs ''title'') = Some (validated.title v)" and
    a: "z_string_min 1 (map_of kvs ''author'') = Some (validated.author v)" and
    r: "default 0 (z_number_min_max 0 5) (map_of kvs ''rating'') = Some (validated.rating v)" and
    p: "z_number_min 1 (map_of kvs ''pages'') = Some (validated.pages v)" and
    e: "default ''to-read'' (z_enum shelves) (map_of kvs ''exclusiveShelf'')
          = Some (validated.exclusiveShelf v)"
    by blast
  have "validated.title v \<noteq> []"
    using t by (auto simp: z_string_min_def split: option.splits json.splits if_splits)
  moreover have "validated.author v \<noteq> []"
    using a by (auto simp: z_string_min_def split: option.splits json.splits if_splits)
  moreover have "0 \<le> validated.rating v \<and> validated.rating v \<le> 5"
    using r by (auto simp: default_def z_number_min_max_def
        split: option.splits json.splits if_splits)
  moreover have "0 \<le> validated.pages v"
    using p by (auto simp: z_number_min_def split: option.splits json.splits if_splits)
  moreover have "validated.exclusiveShelf v \<in> set shelves"
    using e by (auto simp: default_def z_enum_def shelves_def
        split: option.splits json.splits if_splits)
  ultimately show ?thesis by (simp add: schema_validators_def)
qed

lemma cast_date_None: "cast_date d = None \<longleftrightarrow> d = Some InvalidDate"
  by (auto simp: cast_date_def split: option.splits jsdate.splits)

lemma next_id_fresh: "(if db = [] then 1 else Max (bookId ` set db) + 1) \<notin> bookId ` set db"
proof (cases "db = []")
  case True
  then show ?thesis by simp
next
  case False
  have "Max (bookId ` set db) + 1 \<notin> bookId ` set db"
  proof
    assume "Max (bookId ` set db) + 1 \<in> bookId ` set db"
    then have "Max (bookId ` set db) + 1 \<le> Max (bookId ` set db)" by (intro Max_ge) auto
    then show False by simp
  qed
  then show ?thesis using False by simp
qed

lemma createBook_rejected:
  assumes "bookSchema_parse P reqBody = Some v" and "validated.dateRead v = Some InvalidDate"
  shows "createBook P db now ts reqBody = (db, Reply 500 (Message ''Server error''))"
  using assms by (simp add: createBook_def new_Book_save_def cast_date_def)

lemma createBook_saved:
  assumes "bookSchema_parse P reqBody = Some v" and "validated.dateRead v \<noteq> Some InvalidDate"
  shows "\<exists>b. new_Book_save db v (if db = [] then 1 else Max (bookId ` set db) + 1) now ts = Some b
           \<and> createBook P db now ts reqBody = (db @ [b], Reply 201 (BookBody b))
           \<and> bookId b = (if db = [] then 1 else Max (bookId ` set db) + 1)"
proof -
  let ?n = "if db = [] then 1 else Max (bookId ` set db) + 1"
  from assms(2) obtain d where d: "cast_date (validated.dateRead v) = Some d"
    using cast_date_None [of "validated.dateRead v"] by auto
  have fresh: "?n \<notin> bookId ` set db" by (rule next_id_fresh)
  obtain b where b: "new_Book_save db v ?n now ts = Some b" and id: "bookId b = ?n"
    using d fresh parse_valid [OF assms(1)] by (simp add: new_Book_save_def)
  have "createBook P db now ts reqBody = (db @ [b], Reply 201 (BookBody b))"
    using assms(1) b by (simp add: createBook_def newBookId_eq Let_def)
  then show ?thesis using b id by blast
qed

lemmas zod_defs = z_string_def z_string_min_def z_number_def z_number_min_def
  z_number_min_max_def z_array_string_def z_enum_def optional_def default_def
  date_transform_def shelves_def

lemma parse_body1: "bookSchema_parse sample_platform body1 = Some valid1"
  by (simp add: body1_def valid1_def bookSchema_parse_def zod_defs)

lemma create_body1:
  "createBook sample_platform [] 1000 1001 body1 = ([book1], Reply 201 (BookBody book1))"
  by (simp add: createBook_def parse_body1 maxIdBook_def sort_docs_def new_Book_save_def
      cast_date_def schema_validators_def shelves_def valid1_def book1_def)

lemma parseInt_1: "parseInt ''1'' = Some 1"
  by (simp add: parseInt_def strip_ws.simps ws_len_def is_digit_def digit_val_def
      digits_value_def)

lemma find_app: "find p (xs @ ys) = (case find p xs of None \<Rightarrow> find p ys | Some x \<Rightarrow> Some x)"
  by (induction xs) auto

lemma parse_ignores_bookId:
  assumes "\<And>k. k \<noteq> ''bookId'' \<Longrightarrow> map_of kvs k = map_of kvs' k"
  shows "bookSchema_parse P (JObj kvs) = bookSchema_parse P (JObj kvs')"
  by (simp add: bookSchema_parse_def Let_def assms)

lemma createBook_ignores_bookId:
  assumes "\<And>k. k \<noteq> ''bookId'' \<Longrightarrow> map_of kvs k = map_of kvs' k"
  shows "createBook P db now ts (JObj kvs) = createBook P db now ts (JObj kvs')"
  by (simp add: createBook_def parse_ignores_bookId [OF assms])

lemma createBook_201_id:
  assumes "createBook P db now ts reqBody = (db', Reply 201 (BookBody b))"
  shows "db' = db @ [b] \<and> bookId b = (if db = [] then 1 else Max (bookId ` set db) + 1)"
proof -
  from assms obtain v where v: "bookSchema_parse P reqBody = Some v"
    by (auto simp: createBook_def split: option.splits)
  have nr: "validated.dateRead v \<noteq> Some InvalidDate"
    using createBook_rejected [OF v, of db now ts] assms by auto
  from createBook_saved [OF v nr, of db now ts] assms show ?thesis by auto
qed

lemma update_missing:
  assumes "parseInt idParam = Some n" and "n \<notin> bookId ` set db"
  shows "updateBook P db ts idParam reqBody =
           (db, case bookSchema_parse P reqBody of
                  None \<Rightarrow> Reply 400 (Message ''Invalid book data'')
                | Some v \<Rightarrow> if validated.dateRead v = Some InvalidDate
                            then Reply 500 (Message ''Server error'')
                            else Reply 404 (Message ''Book not found''))"
proof (cases "bookSchema_parse P reqBody")
  case None
  then show ?thesis using assms by (simp add: updateBook_def)
next
  case (Some v)
  have nf: "findOne n db = None" using assms(2) by (simp add: findOne_None_iff)
  show ?thesis
  proof (cases "validated.dateRead v = Some InvalidDate")
    case True
    then show ?thesis using Some assms(1)
      by (simp add: updateBook_def findOneAndUpdate_def cast_date_def)
  next
    case False
    then obtain d where "cast_date (validated.dateRead v) = Some d"
      using cast_date_None [of "validated.dateRead v"] by auto
    then show ?thesis using Some assms(1) False nf parse_valid [OF Some]
      by (simp add: updateBook_def findOneAndUpdate_def)
  qed
qed

lemmas query_defs = z_coerce_number_positive_def z_coerce_number_min_max_def zq_string_def
  zq_enum_def optional_def default_def date_transform_def

subsubsection \<open>The shelf invariant\<close>

lemma set_replace_first: "set (replace_first n f db) \<subseteq> set db \<union> f ` set db"
  by (induction db) auto

lemma set_remove_first: "set (remove_first n db) \<subseteq> set db"
  by (induction db) auto

lemma new_Book_save_shelf:
  "new_Book_save db v n now ts = Some b \<Longrightarrow> exclusiveShelf b \<in> set shelves"
  by (auto simp: new_Book_save_def schema_validators_def split: option.splits if_splits)

lemma shelf_invariant_create:
  assumes "\<forall>b\<in>set db. exclusiveShelf b \<in> set shelves"
  shows "\<forall>b\<in>set (fst (createBook P db now ts reqBody)). exclusiveShelf b \<in> set shelves"
  using assms new_Book_save_shelf
  by (auto simp: createBook_def Let_def split: option.splits)

lemma shelf_invariant_update:
  assumes "\<forall>b\<in>set db. exclusiveShelf b \<in> set shelves"
  shows "\<forall>b\<in>set (fst (updateBook P db ts idParam reqBody)). exclusiveShelf b \<in> set shelves"
proof -
  have "\<And>v d n. schema_validators (validated.title v) (validated.author v) (validated.rating v)
           (validated.pages v) (validated.exclusiveShelf v)
         \<Longrightarrow> \<forall>b\<in>set (replace_first n (set_fields v d ts) db). exclusiveShelf b \<in> set shelves"
  proof
    fix v d n b
    assume sv: "schema_validators (validated.title v) (validated.author v) (validated.rating v)
           (validated.pages v) (validated.exclusiveShelf v)"
      and b: "b \<in> set (replace_first n (set_fields v d ts) db)"
    from b set_replace_first [of n "set_fields v d ts" db]
    have "b \<in> set db \<or> b \<in> set_fields v d ts ` set db" by auto
    then show "exclusiveShelf b \<in> set shelves"
      using assms sv by (auto simp: set_fields_def schema_validators_def)
  qed
  then show ?thesis using assms
    by (auto simp: updateBook_def findOneAndUpdate_def
        split: option.splits outcome.splits if_splits)
qed

lemma shelf_invariant_delete:
  assumes "\<forall>b\<in>set db. exclusiveShelf b \<in> set shelves"
  shows "\<forall>b\<in>set (fst (deleteBook db idParam)). exclusiveShelf b \<in> set shelves"
  using assms set_remove_first
  by (auto simp: deleteBook_def findOneAndDelete_def split: option.splits)

lemma reachable_shelves:
  "reachable P db \<Longrightarrow> \<forall>b\<in>set db. exclusiveShelf b \<in> set shelves"
proof (induction rule: reachable.induct)
  case empty
  then show ?case by simp
next
  case (create db now ts reqBody)
  from create.IH show ?case by (rule shelf_invariant_create)
next
  case (update db ts idParam reqBody)
  from update.IH show ?case by (rule shelf_invariant_update)
next
  case (delete db idParam)
  from delete.IH show ?case by (rule shelf_invariant_delete)
qed

lemma shelf_counts:
  assumes "\<forall>b\<in>set db. exclusiveShelf b \<in> set shelves"
  shows "countDocuments (\<lambda>b. exclusiveShelf b = ''read'') db
       + countDocuments (\<lambda>b. exclusiveShelf b = ''currently-reading'') db
       + countDocuments (\<lambda>b. exclusiveShelf b = ''to-read'') db
       = countDocuments (\<lambda>b. True) db"
  using assms by (induction db) (auto simp: countDocuments_def shelves_def)

lemma reachable_book1: "reachable sample_platform [book1]"
  using reachable.create [OF reachable.empty, of sample_platform 1000 1001 body1]
  by (simp add: create_body1)

subsubsection \<open>Absent keys and the update\<close>

lemma parse_absent:
  assumes "bookSchema_parse P (JObj kvs) = Some v"
  shows "map_of kvs ''authorByLastName'' = None \<Longrightarrow> validated.authorByLastName v = None"
    and "map_of kvs ''additionalAuthors'' = None \<Longrightarrow> validated.additionalAuthors v = None"
    and "map_of kvs ''isbn'' = None \<Longrightarrow> validated.isbn v = None"
    and "map_of kvs ''isbn13'' = None \<Longrightarrow> validated.isbn13 v = None"
    and "map_of kvs ''averageRating'' = None \<Longrightarrow> validated.averageRating v = None"
    and "map_of kvs ''publisher'' = None \<Longrightarrow> validated.publisher v = None"
    and "map_of kvs ''binding'' = None \<Longrightarrow> validated.binding v = None"
    and "map_of kvs ''editionPublished'' = None \<Longrightarrow> validated.editionPublished v = None"
    and "map_of kvs ''published'' = None \<Longrightarrow> validated.published v = None"
    and "map_of kvs ''dateRead'' = None \<Longrightarrow> validated.dateRead v = None"
    and "map_of kvs ''bookshelvesWithPositions'' = None \<Longrightarrow> validated.bookshelvesWithPositions v = None"
    and "map_of kvs ''review'' = None \<Longrightarrow> validated.review v = None"
    and "map_of kvs ''spoiler'' = None \<Longrightarrow> validated.spoiler v = None"
    and "map_of kvs ''privateNotes'' = None \<Longrightarrow> validated.privateNotes v = None"
    and "map_of kvs ''rating'' = None \<Longrightarrow> validated.rating v = 0"
    and "map_of kvs ''beqValue'' = None \<Longrightarrow> validated.beqValue v = 0"
    and "map_of kvs ''bookshelves'' = None \<Longrightarrow> validated.bookshelves v = []"
    and "map_of kvs ''exclusiveShelf'' = None \<Longrightarrow> validated.exclusiveShelf v = ''to-read''"
    and "map_of kvs ''readCount'' = None \<Longrightarrow> validated.readCount v = 0"
    and "map_of kvs ''ownedCopies'' = None \<Longrightarrow> validated.ownedCopies v = 0"
  using parse_fields [OF assms]
  by (auto simp: optional_def default_def date_transform_def)

lemma replace_first_found:
  "findOne n db = Some b \<Longrightarrow> replace_first n f db = replace_first n (\<lambda>_. f b) db"
  by (induction db) (auto simp: findOne_def)

lemma updateBook_found:
  assumes "findOne n db = Some b" and "parseInt idParam = Some n"
    and "bookSchema_parse P reqBody = Some v" and "cast_date (validated.dateRead v) = Some d"
  shows "updateBook P db ts idParam reqBody
           = (replace_first n (\<lambda>_. set_fields v d ts b) db,
              Reply 200 (BookBody (set_fields v d ts b)))"
  using assms parse_valid [OF assms(3)] replace_first_found [OF assms(1), of "set_fields v d ts"]
  by (simp add: updateBook_def findOneAndUpdate_def)


lemma set_fields_sel:
  "bookId (set_fields v d ts b) = bookId b"
  "dateAdded (set_fields v d ts b) = dateAdded b"
  "createdAt (set_fields v d ts b) = createdAt b"
  "updatedAt (set_fields v d ts b) = ts"
  "title (set_fields v d ts b) = validated.title v"
  "author (set_fields v d ts b) = validated.author v"
  "pages (set_fields v d ts b) = validated.pages v"
  "rating (set_fields v d ts b) = validated.rating v"
  "beqValue (set_fields v d ts b) = validated.beqValue v"
  "bookshelves (set_fields v d ts b) = validated.bookshelves v"
  "exclusiveShelf (set_fields v d ts b) = validated.exclusiveShelf v"
  "readCount (set_fields v d ts b) = validated.readCount v"
  "ownedCopies (set_fields v d ts b) = validated.ownedCopies v"
  "authorByLastName (set_fields v d ts b) = keep (validated.authorByLastName v) (authorByLastName b)"
  "isbn (set_fields v d ts b) = keep (validated.isbn v) (isbn b)"
  "isbn13 (set_fields v d ts b) = keep (validated.isbn13 v) (isbn13 b)"
  "averageRating (set_fields v d ts b) = keep (validated.averageRating v) (averageRating b)"
  "publisher (set_fields v d ts b) = keep (validated.publisher v) (publisher b)"
  "binding (set_fields v d ts b) = keep (validated.binding v) (binding b)"
  "editionPublished (set_fields v d ts b) = keep (validated.editionPublished v) (editionPublished b)"
  "published (set_fields v d ts b) = keep (validated.published v) (published b)"
  "review (set_fields v d ts b) = keep (validated.review v) (review b)"
  "spoiler (set_fields v d ts b) = keep (validated.spoiler v) (spoiler b)"
  "privateNotes (set_fields v d ts b) = keep (validated.privateNotes v) (privateNotes b)"
  "additionalAuthors (set_fields v d ts b) = (case validated.additionalAuthors v of None \<Rightarrow> additionalAuthors b | Some xs \<Rightarrow> xs)"
  "bookshelvesWithPositions (set_fields v d ts b) = (case validated.bookshelvesWithPositions v of None \<Rightarrow> bookshelvesWithPositions b | Some xs \<Rightarrow> xs)"
  "dateRead (set_fields v d ts b) = keep d (dateRead b)"
  by (simp_all add: set_fields_def)

subsubsection \<open>The list endpoint\<close>

lemma ceil_bounds:
  assumes "0 < b"
  shows "(\<lceil>rat_of_nat a / rat_of_int b\<rceil> - 1) * b < int a
       \<and> int a \<le> \<lceil>rat_of_nat a / rat_of_int b\<rceil> * b"
proof -
  let ?x = "rat_of_nat a / rat_of_int b"
  have b: "0 < rat_of_int b" using assms by simp
  have "rat_of_int (\<lceil>?x\<rceil> - 1) < ?x" by linarith
  then have "rat_of_int (\<lceil>?x\<rceil> - 1) * rat_of_int b < rat_of_nat a"
    by (simp only: pos_less_divide_eq [OF b])
  then have "rat_of_int ((\<lceil>?x\<rceil> - 1) * b) < rat_of_int (int a)" by simp
  then have 1: "(\<lceil>?x\<rceil> - 1) * b < int a" by (simp only: of_int_less_iff)
  have "?x \<le> rat_of_int \<lceil>?x\<rceil>" by linarith
  then have "rat_of_nat a \<le> rat_of_int \<lceil>?x\<rceil> * rat_of_int b"
    by (simp only: pos_divide_le_eq [OF b])
  then have "rat_of_int (int a) \<le> rat_of_int (\<lceil>?x\<rceil> * b)" by simp
  then have 2: "int a \<le> \<lceil>?x\<rceil> * b" by (simp only: of_int_le_iff)
  from 1 2 show ?thesis by blast
qed

lemma filter_parse_raw:
  assumes "filterSchema_parse P q = Some v"
  shows "default (Num 1) z_coerce_number_positive (query.page q) = Some (page v)"
    and "default (Num 10) z_coerce_number_positive (query.limit q) = Some (limit v)"
    and "default ''dateAdded'' zq_string (query.sort q) = Some (sort v)"
    and "default ''desc'' (zq_enum [''asc'', ''desc'']) (query.order q) = Some (order v)"
    and "optional zq_string (query.shelf q) = Some (shelf v)"
    and "optional zq_string (query.search q) = Some (search v)"
    and "optional (z_coerce_number_min_max 0 5) (query.minRating q) = Some (minRating v)"
    and "optional (z_coerce_number_min_max 0 5) (query.maxRating q) = Some (maxRating v)"
    and "map_option (date_transform P) (optional zq_string (query.startDate q))
           = Some (startDate v)"
    and "map_option (date_transform P) (optional zq_string (query.endDate q))
           = Some (endDate v)"
  using assms
  by (auto simp: filterSchema_parse_def bind_eq_Some_conv)

lemma positive_default:
  assumes "default (Num d) z_coerce_number_positive x = Some y" and "0 < d"
  shows "x = None \<Longrightarrow> y = Num d" and "x = Some z \<Longrightarrow> y = z"
    and "y = Num r \<Longrightarrow> 0 < r"
  using assms
  by (auto simp: default_def z_coerce_number_positive_def
      split: option.splits number.splits if_splits)

lemma optional_string: "optional zq_string x = Some y \<longleftrightarrow> y = x"
  by (auto simp: optional_def zq_string_def split: option.splits)

lemma filter_parse_fields:
  assumes "filterSchema_parse P q = Some v"
  shows "page v = Num r \<Longrightarrow> 0 < r" and "limit v = Num r \<Longrightarrow> 0 < r"
    and "query.page q = None \<Longrightarrow> page v = Num 1"
    and "query.page q = Some x \<Longrightarrow> page v = x"
    and "query.limit q = None \<Longrightarrow> limit v = Num 10"
    and "query.limit q = Some x \<Longrightarrow> limit v = x"
    and "search v = query.search q" and "shelf v = query.shelf q"
proof -
  note raw = filter_parse_raw [OF assms]
  show "page v = Num r \<Longrightarrow> 0 < r" using positive_default(3) [OF raw(1)] by simp
  show "limit v = Num r \<Longrightarrow> 0 < r" using positive_default(3) [OF raw(2)] by simp
  show "query.page q = None \<Longrightarrow> page v = Num 1" using positive_default(1) [OF raw(1)] by simp
  show "query.page q = Some x \<Longrightarrow> page v = x"
    using positive_default(2) [OF raw(1)] by simp
  show "query.limit q = None \<Longrightarrow> limit v = Num 10"
    using positive_default(1) [OF raw(2)] by simp
  show "query.limit q = Some x \<Longrightarrow> limit v = x"
    using positive_default(2) [OF raw(2)] by simp
  show "search v = query.search q" using raw(6) by (simp add: optional_string)
  show "shelf v = query.shelf q" using raw(5) by (simp add: optional_string)
qed

lemma as_index_int:
  assumes "0 \<le> k" and "k < 2 ^ 31"
  shows "as_index (Num (rat_of_int k)) = Some (nat k)"
proof -
  have "rat_of_int k < 2 ^ 31"
    using assms(2) by (metis of_int_less_iff of_int_numeral of_int_power)
  then show ?thesis using assms(1) by (simp add: as_index_def)
qed

lemma skip_int:
  "js_times (js_minus (Num (rat_of_int n)) (Num 1)) (Num (rat_of_int m))
     = Num (rat_of_int ((n - 1) * m))"
  by (simp add: js_times_def js_minus_def)

lemma pages_int:
  "m \<noteq> 0 \<Longrightarrow> Math_ceil (js_divide (Num (rat_of_nat t)) (Num (rat_of_int m)))
     = Num (rat_of_int \<lceil>rat_of_nat t / rat_of_int m\<rceil>)"
  by (simp add: Math_ceil_def js_divide_def)

lemma getBooks_ok:
  assumes "filterSchema_parse P q = Some v" and "build_filter P v = Some f"
    and "filter_castable f" and "path_of (sort v) = Some p"
    and "page v = Num (rat_of_int n)" and "limit v = Num (rat_of_int m)"
    and "m < 2 ^ 31" and "(n - 1) * m < 2 ^ 31"
  shows "getBooks P D db q = Reply 200 (PageBody
           \<lparr> data = take (nat m) (drop (nat ((n - 1) * m))
                      (sort_docs p (order v = ''asc'') (filter (matches f) db))),
             totalPages = Num (rat_of_int
               \<lceil>rat_of_nat (length (filter (matches f) db)) / rat_of_int m\<rceil>),
             currentPage = Num (rat_of_int n),
             totalItems = length (filter (matches f) db) \<rparr>)"
    and "0 < n" and "0 < m"
proof -
  note pf = filter_parse_fields [OF assms(1)]
  have "0 < rat_of_int n" using pf(1) [OF assms(5)] .
  then show n: "0 < n" by simp
  have "0 < rat_of_int m" using pf(2) [OF assms(6)] .
  then show m: "0 < m" by simp
  have sk: "0 \<le> (n - 1) * m" using n m by simp
  have il: "as_index (Num (rat_of_int m)) = Some (nat m)"
    using m assms(7) by (intro as_index_int) simp_all
  have isk: "as_index (Num (rat_of_int ((n - 1) * m))) = Some (nat ((n - 1) * m))"
    using sk assms(8) by (intro as_index_int)
  then have isk': "as_index (Num ((rat_of_int n - 1) * rat_of_int m)) = Some (nat ((n - 1) * m))"
    by simp
  have fp: "find_page D (sort v) (order v = ''asc'')
              (js_times (js_minus (page v) (Num 1)) (limit v)) (limit v)
              (filter (matches f) db)
            = Some (take (nat m) (drop (nat ((n - 1) * m))
                      (sort_docs p (order v = ''asc'') (filter (matches f) db))))"
    unfolding assms(5,6) skip_int
    using m by (simp add: find_page_def assms(4) il isk')
  have tp: "Math_ceil (js_divide (Num (rat_of_nat (length (filter (matches f) db)))) (limit v))
            = Num (rat_of_int \<lceil>rat_of_nat (length (filter (matches f) db)) / rat_of_int m\<rceil>)"
    unfolding assms(6) using m by (intro pages_int) simp
  show "getBooks P D db q = Reply 200 (PageBody
           \<lparr> data = take (nat m) (drop (nat ((n - 1) * m))
                      (sort_docs p (order v = ''asc'') (filter (matches f) db))),
             totalPages = Num (rat_of_int
               \<lceil>rat_of_nat (length (filter (matches f) db)) / rat_of_int m\<rceil>),
             currentPage = Num (rat_of_int n),
             totalItems = length (filter (matches f) db) \<rparr>)"
    using assms(1,2,3) fp tp by (simp add: getBooks_def Let_def assms(5))
qed

subsubsection \<open>Text search\<close>

lemma starts_with_iff: "starts_with s t \<longleftrightarrow> (\<exists>q. t = s @ q)"
  by (induction s t rule: starts_with.induct) auto

lemma occurs_in_iff: "occurs_in s t \<longleftrightarrow> (\<exists>p q. t = p @ s @ q)"
proof (induction t)
  case Nil
  then show ?case by auto
next
  case (Cons d t)
  show ?case
  proof
    assume "occurs_in s (d # t)"
    then consider "starts_with s (d # t)" | "occurs_in s t" by auto
    then show "\<exists>p q. d # t = p @ s @ q"
    proof cases
      case 1
      then obtain q where "d # t = s @ q" using starts_with_iff by blast
      then have "d # t = [] @ s @ q" by simp
      then show ?thesis by blast
    next
      case 2
      then obtain p q where "t = p @ s @ q" using Cons.IH by blast
      then have "d # t = (d # p) @ s @ q" by simp
      then show ?thesis by blast
    qed
  next
    assume "\<exists>p q. d # t = p @ s @ q"
    then obtain p q where pq: "d # t = p @ s @ q" by blast
    show "occurs_in s (d # t)"
    proof (cases p)
      case Nil
      then have "starts_with s (d # t)" using pq starts_with_iff by auto
      then show ?thesis by simp
    next
      case (Cons e p')
      then have "t = p' @ s @ q" using pq by simp
      then have "occurs_in s t" using Cons.IH by blast
      then show ?thesis by simp
    qed
  qed
qed

lemma parse_search_only:
  "filterSchema_parse P (search_only s)
     = Some \<lparr> page = Num 1, limit = Num 10, sort = ''dateAdded'', order = ''desc'',
              shelf = None, search = Some s, minRating = None, maxRating = None,
              startDate = None, endDate = None \<rparr>"
  by (simp add: filterSchema_parse_def search_only_def no_params_def query_defs)

lemma ci_penguin:
  "ci_substring ''penguin'' ''Penguin Books''"
  "\<not> ci_substring ''penguin'' ''Dune''"
  "\<not> ci_substring ''penguin'' ''Frank Herbert''"
  by code_simp+

lemma plain_penguin: "plain ''penguin''" "\<not> plain ''(''"
  by code_simp+

lemma matches_search_only:
  "matches \<lparr> exclusiveShelf_eq = None, rating_range = None, dateRead_range = None,
             or_regex = Some rx \<rparr>
     = (\<lambda>b. rx (title b) \<or> rx (author b) \<or> in_opt rx (publisher b) \<or> in_opt rx (review b))"
  by (rule ext) (simp add: matches_def)

lemma path_of_dateAdded: "path_of ''dateAdded'' = Some Path_dateAdded"
  by (simp add: path_of_def)

lemma getBooks_search_only:
  assumes "s \<noteq> []" and "RegExp_i P s = Some rx"
  shows "getBooks P D db (search_only s) = Reply 200 (PageBody
           \<lparr> data = take 10 (sort_docs Path_dateAdded False
                      (filter (\<lambda>b. rx (title b) \<or> rx (author b)
                          \<or> in_opt rx (publisher b) \<or> in_opt rx (review b)) db)),
             totalPages = Num (rat_of_int
               \<lceil>rat_of_nat (length (filter (\<lambda>b. rx (title b) \<or> rx (author b)
                          \<or> in_opt rx (publisher b) \<or> in_opt rx (review b)) db)) / rat_of_int 10\<rceil>),
             currentPage = Num 1,
             totalItems = length (filter (\<lambda>b. rx (title b) \<or> rx (author b)
                          \<or> in_opt rx (publisher b) \<or> in_opt rx (review b)) db) \<rparr>)"
proof -
  let ?v = "\<lparr> page = Num 1, limit = Num 10, sort = ''dateAdded'', order = ''desc'',
              shelf = None, search = Some s, minRating = None, maxRating = None,
              startDate = None, endDate = None \<rparr>"
  let ?f = "\<lparr> exclusiveShelf_eq = None, rating_range = None, dateRead_range = None,
             or_regex = Some rx \<rparr>"
  have h1: "filterSchema_parse P (search_only s) = Some ?v" by (rule parse_search_only)
  have h2: "build_filter P ?v = Some ?f" using assms by (simp add: build_filter_def)
  have h3: "filter_castable ?f" by (simp add: filter_castable_def)
  have h4: "path_of (sort ?v) = Some Path_dateAdded" by (simp add: path_of_dateAdded)
  have h5: "page ?v = Num (rat_of_int 1)" by simp
  have h6: "limit ?v = Num (rat_of_int 10)" by simp
  from getBooks_ok(1) [OF h1 h2 h3 h4 h5 h6, of D db]
  show ?thesis by (simp add: matches_search_only)
qed

lemma ceil_1_10: "\<lceil>(1::rat) / 10\<rceil> = 1"
  by (rule ceiling_unique) simp_all

lemma getBooks_penguin:
  "getBooks sample_platform sample_database [book3] (search_only ''penguin'')
     = Reply 200 (PageBody \<lparr> data = [book3], totalPages = Num 1, currentPage = Num 1,
                              totalItems = 1 \<rparr>)"
proof -
  have rx: "RegExp_i sample_platform ''penguin'' = Some (ci_substring ''penguin'')"
    by (simp add: sample_platform_def plain_penguin)
  have m: "in_opt (ci_substring ''penguin'') (publisher book3)"
    by (simp add: book3_def in_opt_def ci_penguin)
  show ?thesis
    using getBooks_search_only [of "''penguin''" sample_platform _ sample_database "[book3]", OF _ rx] m
    by (simp add: sort_docs_def ceil_1_10)
qed

subsubsection \<open>Decimal text\<close>

lemma of_char_digit: "d < 10 \<Longrightarrow> (of_char (char_of (48 + d :: nat)) :: nat) = 48 + d"
  by (simp add: of_char_of)

lemma dig_char_of: "d < 10 \<Longrightarrow> dig (char_of (48 + d :: nat))"
  by (simp add: dig_def of_char_digit del: of_char_of)

lemma digit_char: "d < 10 \<Longrightarrow> digit_val (char_of (48 + d :: nat)) = Some d"
  by (simp add: digit_val_def Let_def of_char_digit del: of_char_of)

lemma dig_digit_val: "dig c \<Longrightarrow> digit_val c = Some (of_char c - 48)"
  by (simp add: dig_def digit_val_def)

lemma dig_is_digit: "dig c \<Longrightarrow> is_digit 10 c"
  by (auto simp: is_digit_def dig_digit_val dig_def)

lemma dig_not_ws:
  assumes "dig c"
  shows "c \<notin> set [CHR 0x09, CHR 0x0A, CHR 0x0B, CHR 0x0C, CHR 0x0D, CHR 0x20]"
    and "c \<noteq> CHR 0xC2" and "c \<noteq> CHR 0xE1" and "c \<noteq> CHR 0xE2"
    and "c \<noteq> CHR 0xE3" and "c \<noteq> CHR 0xEF"
  using assms by (auto simp: dig_def)

lemma dig_ws_len: "dig c \<Longrightarrow> ws_len (c # r) = 0"
  using dig_not_ws [of c] by (simp add: ws_len_def split: list.splits)

lemma dig_not_sign: "dig c \<Longrightarrow> c \<noteq> CHR ''-'' \<and> c \<noteq> CHR ''+'' \<and> c \<noteq> CHR ''x'' \<and> c \<noteq> CHR ''X''"
  by (auto simp: dig_def)

lemma decimal_nat_dig: "list_all dig (decimal_nat n) \<and> decimal_nat n \<noteq> []"
proof (induction n rule: decimal_nat.induct)
  case (1 n)
  show ?case
  proof (cases "n < 10")
    case True
    then show ?thesis by (simp add: decimal_nat.simps [of n] dig_char_of)
  next
    case False
    then show ?thesis using 1 by (simp add: decimal_nat.simps [of n] dig_char_of)
  qed
qed

lemma digits_value_snoc:
  "digits_value R (xs @ [c]) = digits_value R xs * R + (case digit_val c of None \<Rightarrow> 0 | Some d \<Rightarrow> d)"
  by (simp add: digits_value_def)

lemma digits_value_decimal_nat: "digits_value 10 (decimal_nat n) = n"
proof (induction n rule: decimal_nat.induct)
  case (1 n)
  show ?case
  proof (cases "n < 10")
    case True
    then show ?thesis
      by (simp add: decimal_nat.simps [of n] digits_value_def digit_char)
  next
    case False
    then have "digits_value 10 (decimal_nat (n div 10)) = n div 10" using 1 by simp
    then show ?thesis using False
      by (simp add: decimal_nat.simps [of n] digits_value_snoc digit_char)
  qed
qed

lemma takeWhile_all: "list_all p xs \<Longrightarrow> takeWhile p xs = xs"
  by (induction xs) auto

lemma parseInt_radix_10:
  assumes "S1 \<noteq> []" and "list_all dig S1"
  shows "(case S1 of
            c # x # r \<Rightarrow> if c = CHR ''0'' \<and> (x = CHR ''x'' \<or> x = CHR ''X'')
                           then (16, r) else (10::nat, S1)
          | _ \<Rightarrow> (10, S1)) = (10, S1)"
proof (cases S1)
  case Nil
  then show ?thesis by simp
next
  case (Cons c r)
  show ?thesis
  proof (cases r)
    case Nil
    then show ?thesis using Cons by simp
  next
    case (Cons x r')
    then have "dig x" using assms(2) \<open>S1 = c # r\<close> by simp
    then have "x \<noteq> CHR ''x'' \<and> x \<noteq> CHR ''X''" using dig_not_sign by blast
    then show ?thesis using Cons \<open>S1 = c # r\<close> by simp
  qed
qed

lemma parseInt_digits:
  assumes "list_all dig s" and "s \<noteq> []"
  shows "parseInt s = Some (int (digits_value 10 s))"
    and "parseInt (CHR ''-'' # s) = Some (- int (digits_value 10 s))"
proof -
  from assms obtain c r where s: "s = c # r" and c: "dig c"
    by (cases s) auto
  have tw: "takeWhile (is_digit 10) s = s"
    using assms(1) by (intro takeWhile_all) (auto simp: list_all_iff dig_is_digit)
  note pre = parseInt_radix_10 [OF assms(2,1)]
  have st: "strip_ws s = s"
    using c by (simp add: s strip_ws.simps [of "c # r"] dig_ws_len)
  have sg: "(case s of
               c # r \<Rightarrow> if c = CHR ''-'' then (- 1, r)
                        else if c = CHR ''+'' then (1, r) else (1::int, s)
             | [] \<Rightarrow> (1, s)) = (1, s)"
    using dig_not_sign [OF c] by (simp add: s)
  show "parseInt s = Some (int (digits_value 10 s))"
    unfolding parseInt_def st Let_def sg
    by (simp add: pre tw assms(2))
  have wm: "ws_len (CHR ''-'' # s) = 0"
    by (simp add: ws_len_def split: list.splits)
  have st': "strip_ws (CHR ''-'' # s) = CHR ''-'' # s"
    using wm by (simp add: strip_ws.simps [of "CHR ''-'' # s"])
  show "parseInt (CHR ''-'' # s) = Some (- int (digits_value 10 s))"
    unfolding parseInt_def st' Let_def
    by (simp add: pre tw assms(2))
qed

lemma parseInt_decimal: "parseInt (decimal i) = Some i"
proof (cases "i < 0")
  case True
  then show ?thesis
    using parseInt_digits(2) [of "decimal_nat (nat (- i))"] decimal_nat_dig [of "nat (- i)"]
    by (simp add: decimal_def digits_value_decimal_nat)
next
  case False
  then show ?thesis
    using parseInt_digits(1) [of "decimal_nat (nat i)"] decimal_nat_dig [of "nat i"]
    by (simp add: decimal_def digits_value_decimal_nat)
qed

lemma is_digit_10_dig: "is_digit 10 c \<longleftrightarrow> dig c"
  by (auto simp: is_digit_def digit_val_def dig_def Let_def split: if_splits)

lemma takeWhile_prefix:
  assumes "list_all p xs" and "\<not> p c"
  shows "takeWhile p (xs @ c # r) = xs"
  using assms by (induction xs) auto

lemma parseInt_prefix:
  assumes "list_all dig ds" and "ds \<noteq> []" and "\<not> dig c"
    and "\<not> (ds = ''0'' \<and> (c = CHR ''x'' \<or> c = CHR ''X''))"
  shows "parseInt (ds @ c # r) = Some (int (digits_value 10 ds))"
proof -
  from assms(1,2) obtain d ds' where ds: "ds = d # ds'" and d: "dig d"
    by (cases ds) auto
  let ?s = "ds @ c # r"
  have tw: "takeWhile (is_digit 10) ?s = ds"
    using assms(1,3) by (intro takeWhile_prefix) (auto simp: list_all_iff is_digit_10_dig)
  have st: "strip_ws ?s = ?s"
    using d by (simp add: ds strip_ws.simps [of "d # ds' @ c # r"] dig_ws_len)
  have sg: "(case ?s of
               c # r \<Rightarrow> if c = CHR ''-'' then (- 1, r)
                        else if c = CHR ''+'' then (1, r) else (1::int, ?s)
             | [] \<Rightarrow> (1, ?s)) = (1, ?s)"
    using dig_not_sign [OF d] by (simp add: ds)
  have pre: "(case ?s of
            c # x # r \<Rightarrow> if c = CHR ''0'' \<and> (x = CHR ''x'' \<or> x = CHR ''X'')
                           then (16, r) else (10::nat, ?s)
          | _ \<Rightarrow> (10, ?s)) = (10, ?s)"
  proof (cases ds')
    case Nil
    then have "ds = [d]" using ds by simp
    then have "\<not> (d = CHR ''0'' \<and> (c = CHR ''x'' \<or> c = CHR ''X''))"
      using assms(4) by auto
    then show ?thesis using Nil ds by auto
  next
    case (Cons x ds'')
    then have "dig x" using assms(1) ds by simp
    then have "x \<noteq> CHR ''x'' \<and> x \<noteq> CHR ''X''" using dig_not_sign by blast
    then show ?thesis using Cons ds by simp
  qed
  show ?thesis
    unfolding parseInt_def st Let_def sg
    by (simp add: pre tw assms(2))
qed

lemma parseInt_hex: "parseInt ''0x1A'' = Some 26" "parseInt ''0xZ'' = None"
  by (simp_all add: parseInt_def strip_ws.simps ws_len_def is_digit_def digit_val_def
      digits_value_def)

lemma parse_title_only: "bookSchema_parse P (JObj [(''title'', JStr ''Dune'')]) = None"
  by (simp add: bookSchema_parse_def z_string_min_def)

subsection \<open>The path parameter\<close>

text \<open>
  C10, as stated, fails in two ways. The update endpoint rejects with status 400 a request
  whose path parameter parses to a number when its body fails validation: here the
  parameter is \<^verbatim>\<open>1\<close>, the record exists, and the body holds a title only. And not every
  numeric prefix followed by other characters is read as that prefix: \<^verbatim>\<open>0xZ\<close> begins with
  the digit 0 and is rejected, and \<^verbatim>\<open>0x1A\<close> is read as 26.
\<close>

theorem id_check_counterexamples:
  "parseInt ''1'' = Some 1
   \<and> updateBook sample_platform [book1] 2000 ''1'' (JObj [(''title'', JStr ''Dune'')])
       = ([book1], Reply 400 (Message ''Invalid book data''))
   \<and> parseInt ''0xZ'' = None
   \<and> getBookById [book1] ''0xZ'' = Reply 400 (Message ''Invalid book ID'')
   \<and> parseInt ''0x1A'' = Some 26"
  by (simp add: updateBook_def getBookById_def parseInt_1 parseInt_hex parse_title_only)

text \<open>
  C10, amended. The get-by-id and delete endpoints answer 400 exactly when \<^verbatim>\<open>parseInt\<close>
  of the path parameter is NaN. The update endpoint answers 400 with the message
  \<^verbatim>\<open>Invalid book ID\<close> exactly in that case, and answers 400 at all exactly when the
  parameter is NaN or the body fails validation. A parameter that consists of one or more
  decimal digits followed by a character that is not a decimal digit, and then anything,
  is accepted, and the three endpoints treat it as they treat its leading digits alone,
  whose decimal value is the identifier; excepted is the single digit 0 followed by
  \<^verbatim>\<open>x\<close> or \<^verbatim>\<open>X\<close>, which opens a hexadecimal numeral. So \<^verbatim>\<open>12abc\<close> is read as 12,
  \<^verbatim>\<open>0x1A\<close> as 26, and \<^verbatim>\<open>0xZ\<close> is rejected.
\<close>

theorem invalid_id_rejected:
  "(status (getBookById db idParam) = 400 \<longleftrightarrow> parseInt idParam = None)
   \<and> (status (snd (deleteBook db idParam)) = 400 \<longleftrightarrow> parseInt idParam = None)
   \<and> (snd (updateBook P db ts idParam reqBody) = Reply 400 (Message ''Invalid book ID'')
        \<longleftrightarrow> parseInt idParam = None)
   \<and> (status (snd (updateBook P db ts idParam reqBody)) = 400
        \<longleftrightarrow> parseInt idParam = None \<or> bookSchema_parse P reqBody = None)
   \<and> (\<forall>ds c r. ds \<noteq> [] \<and> list_all dig ds \<and> \<not> dig c
          \<and> \<not> (ds = ''0'' \<and> (c = CHR ''x'' \<or> c = CHR ''X''))
        \<longrightarrow> parseInt (ds @ c # r) = Some (int (digits_value 10 ds))
          \<and> parseInt ds = Some (int (digits_value 10 ds))
          \<and> getBookById db (ds @ c # r) = getBookById db ds
          \<and> deleteBook db (ds @ c # r) = deleteBook db ds
          \<and> updateBook P db ts (ds @ c # r) reqBody = updateBook P db ts ds reqBody)
   \<and> parseInt ''12abc'' = Some 12
   \<and> parseInt ''0x1A'' = Some 26
   \<and> parseInt ''0xZ'' = None"
proof -
  have a1: "status (getBookById db idParam) = 400 \<longleftrightarrow> parseInt idParam = None"
    by (simp add: getBookById_def split: option.splits)
  have a2: "status (snd (deleteBook db idParam)) = 400 \<longleftrightarrow> parseInt idParam = None"
    by (simp add: deleteBook_def findOneAndDelete_def split: option.splits)
  have a3: "snd (updateBook P db ts idParam reqBody) = Reply 400 (Message ''Invalid book ID'')
        \<longleftrightarrow> parseInt idParam = None"
    by (simp add: updateBook_def split: option.splits outcome.splits)
  have a4: "status (snd (updateBook P db ts idParam reqBody)) = 400
        \<longleftrightarrow> parseInt idParam = None \<or> bookSchema_parse P reqBody = None"
    by (simp add: updateBook_def split: option.splits outcome.splits)
  have b: "\<forall>ds c r. ds \<noteq> [] \<and> list_all dig ds \<and> \<not> dig c
          \<and> \<not> (ds = ''0'' \<and> (c = CHR ''x'' \<or> c = CHR ''X''))
        \<longrightarrow> parseInt (ds @ c # r) = Some (int (digits_value 10 ds))
          \<and> parseInt ds = Some (int (digits_value 10 ds))
          \<and> getBookById db (ds @ c # r) = getBookById db ds
          \<and> deleteBook db (ds @ c # r) = deleteBook db ds
          \<and> updateBook P db ts (ds @ c # r) reqBody = updateBook P db ts ds reqBody"
  proof (intro allI impI)
    fix ds c r
    assume h: "ds \<noteq> [] \<and> list_all dig ds \<and> \<not> dig c
          \<and> \<not> (ds = ''0'' \<and> (c = CHR ''x'' \<or> c = CHR ''X''))"
    from h have h1: "list_all dig ds" and h2: "ds \<noteq> []" and h3: "\<not> dig c"
      and h4: "\<not> (ds = ''0'' \<and> (c = CHR ''x'' \<or> c = CHR ''X''))"
      by simp_all
    have p1: "parseInt (ds @ c # r) = Some (int (digits_value 10 ds))"
      by (rule parseInt_prefix [OF h1 h2 h3 h4])
    have p2: "parseInt ds = Some (int (digits_value 10 ds))"
      by (rule parseInt_digits(1) [OF h1 h2])
    show "parseInt (ds @ c # r) = Some (int (digits_value 10 ds))
          \<and> parseInt ds = Some (int (digits_value 10 ds))
          \<and> getBookById db (ds @ c # r) = getBookById db ds
          \<and> deleteBook db (ds @ c # r) = deleteBook db ds
          \<and> updateBook P db ts (ds @ c # r) reqBody = updateBook P db ts ds reqBody"
      by (simp only: getBookById_def deleteBook_def updateBook_def p1 p2 simp_thms)
  qed
  show ?thesis
    by (intro conjI a1 a2 a3 a4 b parseInt_12abc parseInt_hex)
qed

text \<open>The hypothesis of C10 as amended holds for the parameter \<^verbatim>\<open>12abc\<close>.\<close>

theorem invalid_id_rejected_witness:
  "''12'' \<noteq> [] \<and> list_all dig ''12'' \<and> \<not> dig (CHR ''a'')
   \<and> parseInt ''12abc'' = Some 12
   \<and> getBookById [book1] ''12abc'' = getBookById [book1] ''12''
   \<and> getBookById [book1] ''12abc'' = Reply 404 (Message ''Book not found'')"
proof -
  have h: "''12'' \<noteq> [] \<and> list_all dig ''12'' \<and> \<not> dig (CHR ''a'')
          \<and> \<not> (''12'' = ''0'' \<and> (CHR ''a'' = CHR ''x'' \<or> CHR ''a'' = CHR ''X''))"
    by (simp add: dig_def)
  note t = invalid_id_rejected [of "[book1]" "''12''" sample_platform 2000 JNull,
      THEN conjunct2, THEN conjunct2, THEN conjunct2, THEN conjunct2, THEN conjunct1,
      THEN spec, THEN spec, THEN spec, THEN mp, OF h]
  have "getBookById [book1] (''12'' @ CHR ''a'' # ''bc'') = getBookById [book1] ''12''"
    by (rule t [THEN conjunct2, THEN conjunct2, THEN conjunct1])
  then have g: "getBookById [book1] ''12abc'' = getBookById [book1] ''12''" by simp
  have n: "getBookById [book1] ''12'' = Reply 404 (Message ''Book not found'')"
    by (simp add: getBookById_def parseInt_12 findOne_def book1_def)
  have p: "parseInt ''12abc'' = Some 12" using t [THEN conjunct1]
    by (simp add: digits_value_def digit_val_def)
  from h g n p show ?thesis by simp
qed

subsection \<open>Creation\<close>

text \<open>
  C1. For every create request whose body passes validation, the record that the endpoint
  stores and returns has the greatest identifier of the collection plus one, and 1 when
  the collection is empty. The only request with a valid body that stores no record is one
  whose \<^verbatim>\<open>dateRead\<close> is no date: the save rejects it and the reply is 500.
\<close>

theorem createBook_next_id:
  assumes "bookSchema_parse P reqBody = Some v"
  shows "(validated.dateRead v = Some InvalidDate
            \<and> createBook P db now ts reqBody = (db, Reply 500 (Message ''Server error'')))
         \<or> (\<exists>b. createBook P db now ts reqBody = (db @ [b], Reply 201 (BookBody b))
                \<and> bookId b = (if db = [] then 1 else Max (bookId ` set db) + 1))"
proof (cases "validated.dateRead v = Some InvalidDate")
  case True
  then show ?thesis using createBook_rejected [OF assms] by simp
next
  case False
  from createBook_saved [OF assms False, of db now ts] show ?thesis by blast
qed

text \<open>The hypothesis of C1 holds for the sample body, in the empty collection.\<close>

theorem createBook_next_id_witness:
  "bookSchema_parse sample_platform body1 = Some valid1
   \<and> createBook sample_platform [] 1000 1001 body1 = ([book1], Reply 201 (BookBody book1))
   \<and> bookId book1 = 1"
  using createBook_next_id [of sample_platform body1 valid1 "[]" 1000 1001]
  by (simp add: parse_body1 create_body1 book1_def)

text \<open>
  C7. After a create request has stored and returned a record, the get-by-id endpoint,
  called on the resulting collection with the decimal text of the identifier of that
  record, or with any other path parameter that parses to it, answers 200 with the very
  same record.
\<close>

theorem created_then_fetched:
  assumes "createBook P db now ts reqBody = (db', Reply 201 (BookBody b))"
  shows "getBookById db' (decimal (bookId b)) = Reply 200 (BookBody b)
    \<and> (\<forall>idParam. parseInt idParam = Some (bookId b)
          \<longrightarrow> getBookById db' idParam = Reply 200 (BookBody b))"
proof -
  from createBook_201_id [OF assms]
  have db': "db' = db @ [b]"
    and id: "bookId b = (if db = [] then 1 else Max (bookId ` set db) + 1)"
    by auto
  have "bookId b \<notin> bookId ` set db" using id next_id_fresh [of db] by simp
  then have "findOne (bookId b) db = None" by (simp add: findOne_None_iff)
  then have f: "findOne (bookId b) db' = Some b"
    by (simp add: findOne_def db' find_app)
  have "\<forall>idParam. parseInt idParam = Some (bookId b)
          \<longrightarrow> getBookById db' idParam = Reply 200 (BookBody b)"
    using f by (simp add: getBookById_def)
  then show ?thesis using parseInt_decimal [of "bookId b"] by blast
qed

text \<open>The hypothesis of C7 holds for the sample body in the empty collection.\<close>

theorem created_then_fetched_witness:
  "createBook sample_platform [] 1000 1001 body1 = ([book1], Reply 201 (BookBody book1))
   \<and> getBookById [book1] (decimal (bookId book1)) = Reply 200 (BookBody book1)
   \<and> parseInt ''1'' = Some (bookId book1)
   \<and> getBookById [book1] ''1'' = Reply 200 (BookBody book1)"
proof -
  have p: "parseInt ''1'' = Some (bookId book1)"
    by (simp add: parseInt_1 book1_def)
  from created_then_fetched [OF create_body1] p create_body1
  show ?thesis by blast
qed



subsection \<open>Missing records\<close>

text \<open>
  C5, as stated, fails for the update endpoint: with an identifier that is not in the
  collection and a body that fails validation it answers 400, not 404.
\<close>

theorem update_missing_invalid_body:
  "parseInt ''12'' = Some 12 \<and> 12 \<notin> bookId ` set []
   \<and> updateBook sample_platform [] 0 ''12'' (JObj [])
       = ([], Reply 400 (Message ''Invalid book data''))"
  by (simp add: updateBook_def parseInt_12 parse_empty_object)

text \<open>
  C5, amended. For a path parameter that parses to a number not present in the collection,
  the get-by-id and delete endpoints answer 404, and the update endpoint answers 404 when
  its body passes validation and holds no invalid date (400 when the body fails
  validation, 500 for the invalid date). The collection is unchanged in every case.
\<close>

theorem missing_record_404:
  assumes "parseInt idParam = Some n" and "n \<notin> bookId ` set db"
  shows "getBookById db idParam = Reply 404 (Message ''Book not found'')
    \<and> deleteBook db idParam = (db, Reply 404 (Message ''Book not found''))
    \<and> fst (updateBook P db ts idParam reqBody) = db
    \<and> status (snd (updateBook P db ts idParam reqBody)) =
         (case bookSchema_parse P reqBody of
            None \<Rightarrow> 400
          | Some v \<Rightarrow> if validated.dateRead v = Some InvalidDate then 500 else 404)"
proof -
  have nf: "findOne n db = None" using assms(2) by (simp add: findOne_None_iff)
  have "getBookById db idParam = Reply 404 (Message ''Book not found'')"
    using assms(1) nf by (simp add: getBookById_def)
  moreover have "deleteBook db idParam = (db, Reply 404 (Message ''Book not found''))"
    using assms(1) nf by (simp add: deleteBook_def findOneAndDelete_def)
  moreover have "fst (updateBook P db ts idParam reqBody) = db"
    using update_missing [OF assms] by simp
  moreover have "status (snd (updateBook P db ts idParam reqBody)) =
         (case bookSchema_parse P reqBody of
            None \<Rightarrow> 400
          | Some v \<Rightarrow> if validated.dateRead v = Some InvalidDate then 500 else 404)"
    using update_missing [OF assms, of P ts reqBody] by (simp split: option.splits)
  ultimately show ?thesis by blast
qed

text \<open>The hypotheses of C5 as amended hold for the parameter \<^verbatim>\<open>12\<close> and a collection of one
  record with identifier 1.\<close>

theorem missing_record_404_witness:
  "parseInt ''12'' = Some 12 \<and> 12 \<notin> bookId ` set [book1]
   \<and> getBookById [book1] ''12'' = Reply 404 (Message ''Book not found'')
   \<and> deleteBook [book1] ''12'' = ([book1], Reply 404 (Message ''Book not found''))
   \<and> fst (updateBook sample_platform [book1] 2000 ''12'' body1) = [book1]
   \<and> status (snd (updateBook sample_platform [book1] 2000 ''12'' body1)) = 404"
  using missing_record_404 [of "''12''" 12 "[book1]" sample_platform 2000 body1]
  by (simp add: parseInt_12 parse_body1) (simp add: book1_def valid1_def)

subsection \<open>Defaults of the list parameters\<close>

text \<open>
  C8. When a list request passes validation, each of \<^verbatim>\<open>page\<close>, \<^verbatim>\<open>limit\<close>, \<^verbatim>\<open>sort\<close> and
  \<^verbatim>\<open>order\<close> that the request omits has its default in the validated parameters: 1, 10,
  \<^verbatim>\<open>dateAdded\<close> and \<^verbatim>\<open>desc\<close>. Omitting all four from such a request leaves it valid,
  with the four defaults and the other parameters as they were.
\<close>

theorem filter_defaults:
  assumes "filterSchema_parse P q = Some v"
  shows "(query.page q = None \<longrightarrow> page v = Num 1)
    \<and> (query.limit q = None \<longrightarrow> limit v = Num 10)
    \<and> (query.sort q = None \<longrightarrow> sort v = ''dateAdded'')
    \<and> (query.order q = None \<longrightarrow> order v = ''desc'')
    \<and> filterSchema_parse P (q\<lparr>query.page := None, query.limit := None,
                               query.sort := None, query.order := None\<rparr>)
        = Some (v\<lparr>page := Num 1, limit := Num 10, sort := ''dateAdded'', order := ''desc''\<rparr>)"
  using assms
  by (auto simp: filterSchema_parse_def bind_eq_Some_conv default_def)

text \<open>The hypothesis of C8 holds for the request without parameters.\<close>

theorem filter_defaults_witness:
  "filterSchema_parse sample_platform no_params
     = Some \<lparr> page = Num 1, limit = Num 10, sort = ''dateAdded'', order = ''desc'',
              shelf = None, search = None, minRating = None, maxRating = None,
              startDate = None, endDate = None \<rparr>
   \<and> query.page no_params = None \<and> query.limit no_params = None
   \<and> query.sort no_params = None \<and> query.order no_params = None"
  using filter_defaults [of sample_platform no_params
      "\<lparr> page = Num 1, limit = Num 10, sort = ''dateAdded'', order = ''desc'',
         shelf = None, search = None, minRating = None, maxRating = None,
         startDate = None, endDate = None \<rparr>"]
  by (simp add: filterSchema_parse_def no_params_def query_defs)

subsection \<open>Shelves and statistics\<close>

text \<open>
  C6. In every collection that the create, update and delete endpoints produce from the
  empty collection, the primary shelf of each record is one of \<^verbatim>\<open>read\<close>,
  \<^verbatim>\<open>currently-reading\<close> and \<^verbatim>\<open>to-read\<close>, and the statistics endpoint answers with three
  shelf counts whose sum is its total count, the number of records.
\<close>

theorem shelf_counts_sum_to_total:
  assumes "reachable P db"
  shows "(\<forall>b\<in>set db. exclusiveShelf b \<in> {''read'', ''currently-reading'', ''to-read''})
    \<and> (\<exists>st. getBookStats db = Reply 200 (StatsBody st)
           \<and> readBooks st + readingBooks st + toReadBooks st = totalBooks st
           \<and> totalBooks st = length db)"
proof -
  have inv: "\<forall>b\<in>set db. exclusiveShelf b \<in> set shelves"
    using assms by (rule reachable_shelves)
  then have "\<forall>b\<in>set db. exclusiveShelf b \<in> {''read'', ''currently-reading'', ''to-read''}"
    by (simp add: shelves_def)
  moreover have "\<exists>st. getBookStats db = Reply 200 (StatsBody st)
           \<and> readBooks st + readingBooks st + toReadBooks st = totalBooks st
           \<and> totalBooks st = length db"
    using shelf_counts [OF inv] by (simp add: getBookStats_def Let_def countDocuments_def)
  ultimately show ?thesis by blast
qed

text \<open>The hypothesis of C6 holds for the collection after one create request.\<close>

theorem shelf_counts_sum_to_total_witness:
  "reachable sample_platform [book1]
   \<and> exclusiveShelf book1 = ''to-read''
   \<and> (\<exists>st. getBookStats [book1] = Reply 200 (StatsBody st)
         \<and> readBooks st + readingBooks st + toReadBooks st = totalBooks st
         \<and> totalBooks st = 1)"
  using shelf_counts_sum_to_total [of sample_platform "[book1]"] reachable_book1
  by (simp add: book1_def)

subsection \<open>Update\<close>

text \<open>
  C3, as stated, fails: a field that the payload does not specify can change. The stored
  record has rating 5, the payload names title, author and pages only, and the record after
  the update has rating 0, the default of the schema.
\<close>

theorem update_resets_rating:
  "rating (book1\<lparr>rating := 5\<rparr>) = 5
   \<and> body2 = JObj [(''title'', JStr ''Dune Messiah''), (''author'', JStr ''Frank Herbert''),
                    (''pages'', JNum 256)]
   \<and> updateBook sample_platform [book1\<lparr>rating := 5\<rparr>] 2000 ''1'' body2
       = ([book1\<lparr>title := ''Dune Messiah'', pages := 256, updatedAt := 2000\<rparr>],
          Reply 200 (BookBody (book1\<lparr>title := ''Dune Messiah'', pages := 256, updatedAt := 2000\<rparr>)))
   \<and> rating (book1\<lparr>title := ''Dune Messiah'', pages := 256, updatedAt := 2000\<rparr>) = 0"
proof -
  have p: "bookSchema_parse sample_platform body2 = Some valid2"
    by (simp add: body2_def valid2_def valid1_def bookSchema_parse_def zod_defs)
  have "updateBook sample_platform [book1\<lparr>rating := 5\<rparr>] 2000 ''1'' body2
       = ([book1\<lparr>title := ''Dune Messiah'', pages := 256, updatedAt := 2000\<rparr>],
          Reply 200 (BookBody (book1\<lparr>title := ''Dune Messiah'', pages := 256, updatedAt := 2000\<rparr>)))"
    by (simp add: updateBook_def parseInt_1 p findOneAndUpdate_def cast_date_def
        schema_validators_def shelves_def findOne_def set_fields_def keep_def
        valid2_def valid1_def book1_def)
  then show ?thesis by (simp add: book1_def body2_def)
qed

text \<open>
  C3, amended. For every stored record and every valid update payload without an invalid
  date, the update replaces the first record with the given identifier and leaves the
  other records as they are. It preserves the identifier, \<^verbatim>\<open>dateAdded\<close> and
  \<^verbatim>\<open>createdAt\<close>, and sets \<^verbatim>\<open>updatedAt\<close>. Title, author and pages take the values of the
  payload. Rating, \<^verbatim>\<open>beqValue\<close>, \<^verbatim>\<open>bookshelves\<close>, \<^verbatim>\<open>exclusiveShelf\<close>, \<^verbatim>\<open>readCount\<close> and
  \<^verbatim>\<open>ownedCopies\<close> take the validated values, which are the defaults of the schema when
  the payload does not specify them. Every other field that the payload does not specify
  keeps its prior value.
\<close>

theorem update_frame:
  assumes "findOne n db = Some b" and "parseInt idParam = Some n"
    and "bookSchema_parse P (JObj kvs) = Some v"
    and "validated.dateRead v \<noteq> Some InvalidDate"
  shows "\<exists>b'. updateBook P db ts idParam (JObj kvs)
                = (replace_first n (\<lambda>_. b') db, Reply 200 (BookBody b'))
       \<and> bookId b' = bookId b
       \<and> dateAdded b' = dateAdded b
       \<and> createdAt b' = createdAt b
       \<and> updatedAt b' = ts
       \<and> title b' = validated.title v
       \<and> author b' = validated.author v
       \<and> pages b' = validated.pages v
       \<and> rating b' = validated.rating v
       \<and> (map_of kvs ''rating'' = None \<longrightarrow> rating b' = 0)
       \<and> beqValue b' = validated.beqValue v
       \<and> (map_of kvs ''beqValue'' = None \<longrightarrow> beqValue b' = 0)
       \<and> bookshelves b' = validated.bookshelves v
       \<and> (map_of kvs ''bookshelves'' = None \<longrightarrow> bookshelves b' = [])
       \<and> exclusiveShelf b' = validated.exclusiveShelf v
       \<and> (map_of kvs ''exclusiveShelf'' = None \<longrightarrow> exclusiveShelf b' = ''to-read'')
       \<and> readCount b' = validated.readCount v
       \<and> (map_of kvs ''readCount'' = None \<longrightarrow> readCount b' = 0)
       \<and> ownedCopies b' = validated.ownedCopies v
       \<and> (map_of kvs ''ownedCopies'' = None \<longrightarrow> ownedCopies b' = 0)
       \<and> (map_of kvs ''authorByLastName'' = None \<longrightarrow> authorByLastName b' = authorByLastName b)
       \<and> (map_of kvs ''additionalAuthors'' = None \<longrightarrow> additionalAuthors b' = additionalAuthors b)
       \<and> (map_of kvs ''isbn'' = None \<longrightarrow> isbn b' = isbn b)
       \<and> (map_of kvs ''isbn13'' = None \<longrightarrow> isbn13 b' = isbn13 b)
       \<and> (map_of kvs ''averageRating'' = None \<longrightarrow> averageRating b' = averageRating b)
       \<and> (map_of kvs ''publisher'' = None \<longrightarrow> publisher b' = publisher b)
       \<and> (map_of kvs ''binding'' = None \<longrightarrow> binding b' = binding b)
       \<and> (map_of kvs ''editionPublished'' = None \<longrightarrow> editionPublished b' = editionPublished b)
       \<and> (map_of kvs ''published'' = None \<longrightarrow> published b' = published b)
       \<and> (map_of kvs ''dateRead'' = None \<longrightarrow> dateRead b' = dateRead b)
       \<and> (map_of kvs ''bookshelvesWithPositions'' = None \<longrightarrow> bookshelvesWithPositions b' = bookshelvesWithPositions b)
       \<and> (map_of kvs ''review'' = None \<longrightarrow> review b' = review b)
       \<and> (map_of kvs ''spoiler'' = None \<longrightarrow> spoiler b' = spoiler b)
       \<and> (map_of kvs ''privateNotes'' = None \<longrightarrow> privateNotes b' = privateNotes b)"
proof -
  from assms(4) obtain d where d: "cast_date (validated.dateRead v) = Some d"
    using cast_date_None [of "validated.dateRead v"] by auto
  let ?b = "set_fields v d ts b"
  have u: "updateBook P db ts idParam (JObj kvs)
            = (replace_first n (\<lambda>_. ?b) db, Reply 200 (BookBody ?b))"
    by (rule updateBook_found [OF assms(1,2,3) d])
  note ab = parse_absent [OF assms(3)]
  have dn: "validated.dateRead v = None \<Longrightarrow> d = None"
    using d by (simp add: cast_date_def)
  have rest: "bookId ?b = bookId b
       \<and> dateAdded ?b = dateAdded b
       \<and> createdAt ?b = createdAt b
       \<and> updatedAt ?b = ts
       \<and> title ?b = validated.title v
       \<and> author ?b = validated.author v
       \<and> pages ?b = validated.pages v
       \<and> rating ?b = validated.rating v
       \<and> (map_of kvs ''rating'' = None \<longrightarrow> rating ?b = 0)
       \<and> beqValue ?b = validated.beqValue v
       \<and> (map_of kvs ''beqValue'' = None \<longrightarrow> beqValue ?b = 0)
       \<and> bookshelves ?b = validated.bookshelves v
       \<and> (map_of kvs ''bookshelves'' = None \<longrightarrow> bookshelves ?b = [])
       \<and> exclusiveShelf ?b = validated.exclusiveShelf v
       \<and> (map_of kvs ''exclusiveShelf'' = None \<longrightarrow> exclusiveShelf ?b = ''to-read'')
       \<and> readCount ?b = validated.readCount v
       \<and> (map_of kvs ''readCount'' = None \<longrightarrow> readCount ?b = 0)
       \<and> ownedCopies ?b = validated.ownedCopies v
       \<and> (map_of kvs ''ownedCopies'' = None \<longrightarrow> ownedCopies ?b = 0)
       \<and> (map_of kvs ''authorByLastName'' = None \<longrightarrow> authorByLastName ?b = authorByLastName b)
       \<and> (map_of kvs ''additionalAuthors'' = None \<longrightarrow> additionalAuthors ?b = additionalAuthors b)
       \<and> (map_of kvs ''isbn'' = None \<longrightarrow> isbn ?b = isbn b)
       \<and> (map_of kvs ''isbn13'' = None \<longrightarrow> isbn13 ?b = isbn13 b)
       \<and> (map_of kvs ''averageRating'' = None \<longrightarrow> averageRating ?b = averageRating b)
       \<and> (map_of kvs ''publisher'' = None \<longrightarrow> publisher ?b = publisher b)
       \<and> (map_of kvs ''binding'' = None \<longrightarrow> binding ?b = binding b)
       \<and> (map_of kvs ''editionPublished'' = None \<longrightarrow> editionPublished ?b = editionPublished b)
       \<and> (map_of kvs ''published'' = None \<longrightarrow> published ?b = published b)
       \<and> (map_of kvs ''dateRead'' = None \<longrightarrow> dateRead ?b = dateRead b)
       \<and> (map_of kvs ''bookshelvesWithPositions'' = None \<longrightarrow> bookshelvesWithPositions ?b = bookshelvesWithPositions b)
       \<and> (map_of kvs ''review'' = None \<longrightarrow> review ?b = review b)
       \<and> (map_of kvs ''spoiler'' = None \<longrightarrow> spoiler ?b = spoiler b)
       \<and> (map_of kvs ''privateNotes'' = None \<longrightarrow> privateNotes ?b = privateNotes b)"
    by (simp add: set_fields_sel keep_def ab dn)
  show ?thesis
    by (rule exI [of _ ?b], rule conjI, rule u, rule rest)
qed


text \<open>The hypotheses of C3 as amended hold for the sample payload and a stored record with
  rating 5.\<close>

theorem update_frame_witness:
  "findOne 1 [book1\<lparr>rating := 5\<rparr>] = Some (book1\<lparr>rating := 5\<rparr>)
   \<and> parseInt ''1'' = Some 1
   \<and> bookSchema_parse sample_platform body2 = Some valid2
   \<and> validated.dateRead valid2 \<noteq> Some InvalidDate
   \<and> (\<exists>b'. updateBook sample_platform [book1\<lparr>rating := 5\<rparr>] 2000 ''1'' body2
              = ([b'], Reply 200 (BookBody b'))
         \<and> bookId b' = 1 \<and> title b' = ''Dune Messiah'' \<and> rating b' = 0)"
proof -
  have f: "findOne 1 [book1\<lparr>rating := 5\<rparr>] = Some (book1\<lparr>rating := 5\<rparr>)"
    by (simp add: findOne_def book1_def)
  have p: "bookSchema_parse sample_platform body2 = Some valid2"
    by (simp add: body2_def valid2_def valid1_def bookSchema_parse_def zod_defs)
  have p': "bookSchema_parse sample_platform
     (JObj [(''title'', JStr ''Dune Messiah''), (''author'', JStr ''Frank Herbert''),
            (''pages'', JNum 256)]) = Some valid2"
    using p by (simp add: body2_def)
  have d: "validated.dateRead valid2 \<noteq> Some InvalidDate"
    by (simp add: valid2_def valid1_def)
  from update_frame [OF f parseInt_1 p' d, of 2000] f p d parseInt_1
  show ?thesis
    by (auto simp: body2_def valid2_def valid1_def book1_def)
qed

subsection \<open>The list response\<close>

text \<open>
  C2, as stated, fails: a list request can pass validation and still be answered with
  status 500 and a body of one message. The request below passes validation; its search
  text is an opening parenthesis, from which no pattern can be built.
\<close>

theorem list_request_500:
  "filterSchema_parse sample_platform (search_only ''('')
     = Some \<lparr> page = Num 1, limit = Num 10, sort = ''dateAdded'', order = ''desc'',
              shelf = None, search = Some ''('', minRating = None, maxRating = None,
              startDate = None, endDate = None \<rparr>
   \<and> getBooks sample_platform sample_database [] (search_only ''('')
       = Reply 500 (Message ''Server error'')"
proof -
  let ?v = "\<lparr> page = Num 1, limit = Num 10, sort = ''dateAdded'', order = ''desc'',
              shelf = None, search = Some ''('', minRating = None, maxRating = None,
              startDate = None, endDate = None \<rparr>"
  have h1: "filterSchema_parse sample_platform (search_only ''('') = Some ?v"
    by (rule parse_search_only)
  have h2: "build_filter sample_platform ?v = None"
    by (simp add: build_filter_def sample_platform_def plain_penguin)
  have "getBooks sample_platform sample_database [] (search_only ''('')
          = Reply 500 (Message ''Server error'')"
    by (simp add: getBooks_def h1 h2)
  then show ?thesis using h1 by (simp only: simp_thms)
qed

text \<open>
  C2, amended. Take a list request that passes validation, whose page \<open>n\<close> and limit \<open>m\<close>
  are whole numbers with \<open>m\<close> and \<open>(n - 1) * m\<close> below \<open>2^31\<close>, whose sort parameter, given
  or default, names a top-level path of the record schema, whose search text, if any, gives
  a pattern and whose date bounds, if any, are valid dates. The reply has status 200 and a
  body with the four fields: \<open>totalItems\<close> is the number of stored records that match the
  filter, \<open>totalPages\<close> is the ceiling of \<open>totalItems\<close> divided by the effective limit (the
  least number of pages of that size that hold all the items), \<open>currentPage\<close> is the
  requested page, or 1 when none is requested, the effective limit is the requested limit,
  or 10, and \<open>data\<close> holds at most that many records, each of them a stored record that
  matches the filter.
\<close>

theorem list_response:
  assumes "filterSchema_parse P q = Some v" and "build_filter P v = Some f"
    and "filter_castable f" and "path_of (sort v) = Some p"
    and "page v = Num (rat_of_int n)" and "limit v = Num (rat_of_int m)"
    and "m < 2 ^ 31" and "(n - 1) * m < 2 ^ 31"
  shows "\<exists>r. getBooks P D db q = Reply 200 (PageBody r)
     \<and> totalItems r = length (filter (matches f) db)
     \<and> totalPages r = Num (rat_of_int \<lceil>rat_of_nat (totalItems r) / rat_of_int m\<rceil>)
     \<and> (\<lceil>rat_of_nat (totalItems r) / rat_of_int m\<rceil> - 1) * m < int (totalItems r)
     \<and> int (totalItems r) \<le> \<lceil>rat_of_nat (totalItems r) / rat_of_int m\<rceil> * m
     \<and> currentPage r = page v
     \<and> (query.page q = None \<longrightarrow> currentPage r = Num 1)
     \<and> (\<forall>x. query.page q = Some x \<longrightarrow> currentPage r = x)
     \<and> (query.limit q = None \<longrightarrow> m = 10)
     \<and> (\<forall>x. query.limit q = Some x \<longrightarrow> x = Num (rat_of_int m))
     \<and> int (length (data r)) \<le> m
     \<and> set (data r) \<subseteq> {b \<in> set db. matches f b}"
proof -
  let ?ms = "filter (matches f) db"
  let ?c = "\<lceil>rat_of_nat (length ?ms) / rat_of_int m\<rceil>"
  let ?r = "\<lparr> data = take (nat m) (drop (nat ((n - 1) * m))
                      (sort_docs p (order v = ''asc'') ?ms)),
             totalPages = Num (rat_of_int ?c),
             currentPage = Num (rat_of_int n),
             totalItems = length ?ms \<rparr>"
  note pf = filter_parse_fields [OF assms(1)]
  note mpos = getBooks_ok(3) [OF assms]
  have g: "getBooks P D db q = Reply 200 (PageBody ?r)"
    by (rule getBooks_ok(1) [OF assms])
  have cb: "(?c - 1) * m < int (length ?ms) \<and> int (length ?ms) \<le> ?c * m"
    using ceil_bounds [OF mpos, of "length ?ms"] by simp
  have len: "int (length (data ?r)) \<le> m"
    using mpos by simp
  have sub: "set (data ?r) \<subseteq> {b \<in> set db. matches f b}"
  proof
    fix b assume "b \<in> set (data ?r)"
    then have "b \<in> set (sort_docs p (order v = ''asc'') ?ms)"
      by (auto dest: in_set_takeD in_set_dropD)
    then show "b \<in> {b \<in> set db. matches f b}" by (simp add: set_sort_docs)
  qed
  have l10: "query.limit q = None \<longrightarrow> m = 10"
  proof
    assume "query.limit q = None"
    then have "Num (rat_of_int m) = Num 10" using pf(5) assms(6) by simp
    then have "rat_of_int m = rat_of_int 10" by simp
    then show "m = 10" by (simp only: of_int_eq_iff)
  qed
  have pg: "currentPage ?r = page v
     \<and> (query.page q = None \<longrightarrow> currentPage ?r = Num 1)
     \<and> (\<forall>x. query.page q = Some x \<longrightarrow> currentPage ?r = x)
     \<and> (\<forall>x. query.limit q = Some x \<longrightarrow> x = Num (rat_of_int m))"
    using pf(3,4,6) assms(5,6) by auto
  have "getBooks P D db q = Reply 200 (PageBody ?r)
     \<and> totalItems ?r = length (filter (matches f) db)
     \<and> totalPages ?r = Num (rat_of_int \<lceil>rat_of_nat (totalItems ?r) / rat_of_int m\<rceil>)
     \<and> (\<lceil>rat_of_nat (totalItems ?r) / rat_of_int m\<rceil> - 1) * m < int (totalItems ?r)
     \<and> int (totalItems ?r) \<le> \<lceil>rat_of_nat (totalItems ?r) / rat_of_int m\<rceil> * m
     \<and> currentPage ?r = page v
     \<and> (query.page q = None \<longrightarrow> currentPage ?r = Num 1)
     \<and> (\<forall>x. query.page q = Some x \<longrightarrow> currentPage ?r = x)
     \<and> (query.limit q = None \<longrightarrow> m = 10)
     \<and> (\<forall>x. query.limit q = Some x \<longrightarrow> x = Num (rat_of_int m))
     \<and> int (length (data ?r)) \<le> m
     \<and> set (data ?r) \<subseteq> {b \<in> set db. matches f b}"
    using g cb len sub pg l10 by (simp only: paginated.simps simp_thms) auto
  then show ?thesis by (rule exI [of _ ?r])
qed

text \<open>The hypotheses of C2 as amended hold for a search for \<^verbatim>\<open>penguin\<close>.\<close>

theorem list_response_witness:
  "filterSchema_parse sample_platform (search_only ''penguin'')
     = Some \<lparr> page = Num 1, limit = Num 10, sort = ''dateAdded'', order = ''desc'',
              shelf = None, search = Some ''penguin'', minRating = None, maxRating = None,
              startDate = None, endDate = None \<rparr>
   \<and> build_filter sample_platform
        \<lparr> page = Num 1, limit = Num 10, sort = ''dateAdded'', order = ''desc'',
          shelf = None, search = Some ''penguin'', minRating = None, maxRating = None,
          startDate = None, endDate = None \<rparr>
       = Some \<lparr> exclusiveShelf_eq = None, rating_range = None, dateRead_range = None,
                or_regex = Some (ci_substring ''penguin'') \<rparr>
   \<and> filter_castable \<lparr> exclusiveShelf_eq = None, rating_range = None, dateRead_range = None,
                or_regex = Some (ci_substring ''penguin'') \<rparr>
   \<and> path_of ''dateAdded'' = Some Path_dateAdded
   \<and> (10::int) < 2 ^ 31 \<and> ((1::int) - 1) * 10 < 2 ^ 31
   \<and> getBooks sample_platform sample_database [book3] (search_only ''penguin'')
       = Reply 200 (PageBody \<lparr> data = [book3], totalPages = Num 1, currentPage = Num 1,
                                totalItems = 1 \<rparr>)"
proof -
  let ?v = "\<lparr> page = Num 1, limit = Num 10, sort = ''dateAdded'', order = ''desc'',
          shelf = None, search = Some ''penguin'', minRating = None, maxRating = None,
          startDate = None, endDate = None \<rparr>"
  let ?f = "\<lparr> exclusiveShelf_eq = None, rating_range = None, dateRead_range = None,
                or_regex = Some (ci_substring ''penguin'') \<rparr>"
  have h1: "filterSchema_parse sample_platform (search_only ''penguin'') = Some ?v"
    by (rule parse_search_only)
  have h2: "build_filter sample_platform ?v = Some ?f"
    by (simp add: build_filter_def sample_platform_def plain_penguin)
  have h3: "filter_castable ?f"
    by (simp add: filter_castable_def)
  have h4: "path_of (sort ?v) = Some Path_dateAdded" by (simp add: path_of_dateAdded)
  have h5: "page ?v = Num (rat_of_int 1)" by simp
  have h6: "limit ?v = Num (rat_of_int 10)" by simp
  have h7: "(10::int) < 2 ^ 31" by simp
  have h8: "((1::int) - 1) * 10 < 2 ^ 31" by simp
  from list_response [OF h1 h2 h3 h4 h5 h6 h7 h8, of sample_database "[book3]"]
  have "\<exists>r. getBooks sample_platform sample_database [book3] (search_only ''penguin'')
            = Reply 200 (PageBody r)"
    by blast
  then show ?thesis
    using h1 h2 h3 h7 h8 getBooks_penguin path_of_dateAdded by (simp only: simp_thms)
qed

subsection \<open>Search\<close>

text \<open>
  C4, as stated, fails: the search also looks into the publisher and the review. The text
  \<^verbatim>\<open>penguin\<close> occurs neither in the title nor in the author of the stored record, only in
  its publisher, and the list endpoint returns the record.
\<close>

theorem search_matches_publisher:
  "getBooks sample_platform sample_database [book3] (search_only ''penguin'')
     = Reply 200 (PageBody \<lparr> data = [book3], totalPages = Num 1, currentPage = Num 1,
                              totalItems = 1 \<rparr>)
   \<and> title book3 = ''Dune'' \<and> author book3 = ''Frank Herbert''
   \<and> \<not> ci_substring ''penguin'' (title book3)
   \<and> \<not> ci_substring ''penguin'' (author book3)"
  using getBooks_penguin by (simp add: book3_def book1_def ci_penguin)

text \<open>
  C4, amended. For every non-empty search text that the pattern constructor reads as
  itself, matched without regard to case, the list endpoint called with that search text
  and no other parameter counts in \<open>totalItems\<close> exactly the stored records in which the
  text occurs in the title, the author, the publisher or the review, and returns no other
  record; when there are at most ten such records, the size of the default page, it returns
  a record if and only if the text occurs in one of these four fields of it.
\<close>

theorem search_by_text:
  assumes "s \<noteq> []" and "RegExp_i P s = Some (ci_substring s)"
  shows "\<exists>r. getBooks P D db (search_only s) = Reply 200 (PageBody r)
     \<and> totalItems r = length (filter (text_match s) db)
     \<and> (\<forall>b. b \<in> set (data r) \<longrightarrow> b \<in> set db \<and> text_match s b)
     \<and> (length (filter (text_match s) db) \<le> 10
          \<longrightarrow> (\<forall>b. b \<in> set (data r) \<longleftrightarrow> b \<in> set db \<and> text_match s b))"
proof -
  let ?ms = "filter (text_match s) db"
  let ?r = "\<lparr> data = take 10 (sort_docs Path_dateAdded False ?ms),
             totalPages = Num (rat_of_int \<lceil>rat_of_nat (length ?ms) / rat_of_int 10\<rceil>),
             currentPage = Num 1, totalItems = length ?ms \<rparr>"
  have tm: "(\<lambda>b. ci_substring s (title b) \<or> ci_substring s (author b)
              \<or> in_opt (ci_substring s) (publisher b) \<or> in_opt (ci_substring s) (review b))
            = text_match s"
    by (rule ext) (simp add: text_match_def)
  have g: "getBooks P D db (search_only s) = Reply 200 (PageBody ?r)"
    using getBooks_search_only [OF assms, of D db] by (simp only: tm)
  have sub: "\<forall>b. b \<in> set (data ?r) \<longrightarrow> b \<in> set db \<and> text_match s b"
  proof (intro allI impI)
    fix b assume "b \<in> set (data ?r)"
    then have "b \<in> set (sort_docs Path_dateAdded False ?ms)"
      by (auto dest: in_set_takeD)
    then show "b \<in> set db \<and> text_match s b" by (simp add: set_sort_docs)
  qed
  have all: "length ?ms \<le> 10
          \<longrightarrow> (\<forall>b. b \<in> set (data ?r) \<longleftrightarrow> b \<in> set db \<and> text_match s b)"
  proof
    assume "length ?ms \<le> 10"
    then have "data ?r = sort_docs Path_dateAdded False ?ms"
      by (simp add: length_sort_docs)
    then show "\<forall>b. b \<in> set (data ?r) \<longleftrightarrow> b \<in> set db \<and> text_match s b"
      by (simp add: set_sort_docs)
  qed
  have "getBooks P D db (search_only s) = Reply 200 (PageBody ?r)
     \<and> totalItems ?r = length ?ms
     \<and> (\<forall>b. b \<in> set (data ?r) \<longrightarrow> b \<in> set db \<and> text_match s b)
     \<and> (length ?ms \<le> 10
          \<longrightarrow> (\<forall>b. b \<in> set (data ?r) \<longleftrightarrow> b \<in> set db \<and> text_match s b))"
    using g sub all by (simp only: paginated.simps simp_thms)
  then show ?thesis by (rule exI [of _ ?r])
qed

text \<open>The hypotheses of C4 as amended hold for the text \<^verbatim>\<open>penguin\<close>.\<close>

theorem search_by_text_witness:
  "''penguin'' \<noteq> []
   \<and> RegExp_i sample_platform ''penguin'' = Some (ci_substring ''penguin'')
   \<and> getBooks sample_platform sample_database [book3] (search_only ''penguin'')
       = Reply 200 (PageBody \<lparr> data = [book3], totalPages = Num 1, currentPage = Num 1,
                                totalItems = 1 \<rparr>)
   \<and> text_match ''penguin'' book3"
  using search_by_text [of "''penguin''" sample_platform sample_database "[book3]"] getBooks_penguin
  by (simp add: sample_platform_def plain_penguin text_match_def book3_def in_opt_def ci_penguin)

end
